theory Spec2Isabelle
  imports Complex_Main
begin

section \<open>The database of the software shop\<close>

text \<open>
  The program keeps all of its state in one SQLite database (\<^verbatim>\<open>db.py\<close>,
  \<^verbatim>\<open>init_db\<close>). Every table is a list of rows in rowid order, every row a record
  with the columns of the table. SQLite's \<^verbatim>\<open>REAL\<close> columns are modelled by
  \<^typ>\<open>real\<close> (prices and averages are exact here, rounding of doubles is not
  modelled), \<^verbatim>\<open>INTEGER\<close> columns and Python's integers by \<^typ>\<open>int\<close>, a column
  that may hold \<^verbatim>\<open>NULL\<close> and is written by the operations below by an
  \<open>option\<close>. \<^verbatim>\<open>CURRENT_TIMESTAMP\<close> is an
  argument \<open>now\<close> of every operation that reads the clock. The tables
  \<^verbatim>\<open>users\<close> and \<^verbatim>\<open>support_tickets\<close> take no part in the operations below
  and are left out; a user is known by its id.
\<close>

type_synonym timestamp = nat

record category_row =
  cat_id :: int
  cat_name :: string
  cat_description :: "string option"
  cat_created_at :: timestamp

record software_row =
  sw_id :: int
  sw_name :: string
  sw_description :: "string option"
  sw_price :: real
  sw_category_id :: int
  sw_developer :: string
  sw_downloads :: int
  sw_rating_avg :: "real option"
  sw_image_url :: "string option"
  sw_created_at :: timestamp

record cart_row =
  cart_id :: int
  cart_user_id :: int
  cart_total_price :: real
  cart_created_at :: timestamp
  cart_updated_at :: timestamp

record cart_item_row =
  ci_id :: int
  ci_cart_id :: int
  ci_software_id :: int
  ci_quantity :: int
  ci_price_at_add :: real
  ci_added_at :: timestamp

record purchase_row =
  ph_id :: int
  ph_user_id :: int
  ph_total_price :: real
  ph_payment_method :: "string option"
  ph_status :: string
  ph_purchased_at :: timestamp

record purchase_item_row =
  pi_id :: int
  pi_purchase_id :: int
  pi_software_id :: int
  pi_software_name :: string
  pi_developer :: string
  pi_quantity :: int
  pi_price_at_purchase :: real

record review_row =
  rv_id :: int
  rv_user_id :: int
  rv_software_id :: int
  rv_rating :: int
  rv_comment :: "string option"
  rv_created_at :: timestamp

text \<open>
  The fields \<open>seq_\<dots>\<close> are the rows of \<^verbatim>\<open>sqlite_sequence\<close>: the largest rowid
  an \<^verbatim>\<open>AUTOINCREMENT\<close> table has ever handed out.
\<close>

record db =
  categories :: "category_row list"
  software :: "software_row list"
  cart :: "cart_row list"
  cart_items :: "cart_item_row list"
  purchase_history :: "purchase_row list"
  purchase_items :: "purchase_item_row list"
  reviews :: "review_row list"
  seq_cart_items :: int
  seq_purchase_history :: int
  seq_purchase_items :: int
  seq_reviews :: int

text \<open>
  The exceptions the operations raise. The \<^verbatim>\<open>ValueError\<close>s carry the message of
  the source; \<open>TypeError\<close> is Python subscripting \<^verbatim>\<open>None\<close>
  (\<^verbatim>\<open>item['cart_id']\<close> after a \<^verbatim>\<open>fetchone()\<close> that found no row);
  \<open>IntegrityError\<close> is \<^verbatim>\<open>sqlite3.IntegrityError\<close>, a violated \<^verbatim>\<open>CHECK\<close>,
  \<^verbatim>\<open>UNIQUE\<close> or enforced foreign key; \<open>IndexError\<close> is a
  \<^verbatim>\<open>sqlite3.Row\<close> asked for a column it does not have; \<open>OverflowError\<close> is
  a parameter SQLite cannot hold. An operation that raises never reaches
  \<^verbatim>\<open>conn.commit()\<close>, and closing the connection drops its writes: the result
  \<open>Inl e\<close> carries no state, the database is the one before the call.
\<close>

datatype message =
    Cart_not_found int
  | Software_not_found int
  | Cart_item_not_found int
  | Cart_is_empty int

datatype error = ValueError message | TypeError | IntegrityError | IndexError | OverflowError

text \<open>
  Python's integers have no bound, SQLite's are signed 64-bit. \<^verbatim>\<open>cursor.execute\<close>
  binds the parameters of a statement before it runs it, and binding an integer that
  does not fit raises \<^verbatim>\<open>OverflowError\<close>
  ("Python int too large to convert to SQLite INTEGER"): nothing of the statement
  happens. The operations of the cart carry this check at every argument they bind.
  The operations of the other sections are modelled for arguments that fit; the rows of
  the tables hold integers that fit, since SQLite stored them.
\<close>

definition in_int64 :: "int \<Rightarrow> bool" where
  "in_int64 n = (- (2 ^ 63) \<le> n \<and> n < 2 ^ 63)"

text \<open>
  \<^verbatim>\<open>get_db_connection\<close> opens the connection with \<^verbatim>\<open>sqlite3.connect\<close> and sets
  the row factory. It issues no \<^verbatim>\<open>PRAGMA foreign_keys = ON\<close>, and SQLite leaves
  foreign keys unenforced on a connection that does not ask for them. Every operation
  below works on such a connection: its inserts and updates are checked against the
  \<^verbatim>\<open>CHECK\<close>, \<^verbatim>\<open>UNIQUE\<close> and primary-key constraints of the schema and not
  against its \<^verbatim>\<open>REFERENCES\<close> clauses. The two deletions of the catalog take the
  connection as an argument, to show what the setting decides.
\<close>

record connection =
  foreign_keys :: bool

definition get_db_connection :: connection where
  "get_db_connection = \<lparr>foreign_keys = False\<rparr>"

text \<open>
  The rowid of an inserted row of an \<^verbatim>\<open>AUTOINCREMENT\<close> table: one more than the
  largest rowid the table has ever had.
\<close>

definition autoincrement :: "int \<Rightarrow> int list \<Rightarrow> int" where
  "autoincrement seq ids = fold max ids seq + 1"

section \<open>The cart\<close>

text \<open>
  \<^verbatim>\<open>SELECT COALESCE(SUM(quantity * price_at_add), 0) FROM cart_items WHERE cart_id = ?\<close>
\<close>

definition cart_lines :: "int \<Rightarrow> db \<Rightarrow> cart_item_row list" where
  "cart_lines cid s = filter (\<lambda>i. ci_cart_id i = cid) (cart_items s)"

definition line_price :: "cart_item_row \<Rightarrow> real" where
  "line_price i = real_of_int (ci_quantity i) * ci_price_at_add i"

definition cart_sum :: "int \<Rightarrow> db \<Rightarrow> real" where
  "cart_sum cid s = sum_list (map line_price (cart_lines cid s))"

text \<open>
  \<^verbatim>\<open>UPDATE cart SET total_price = (SELECT \<dots>), updated_at = CURRENT_TIMESTAMP WHERE id = ?\<close>,
  the statement that ends \<^verbatim>\<open>add_to_cart\<close>, \<^verbatim>\<open>update_cart_item_quantity\<close> and
  \<^verbatim>\<open>remove_from_cart\<close>. The column has \<^verbatim>\<open>CHECK(total_price >= 0)\<close>.
\<close>

definition update_cart_total :: "int \<Rightarrow> timestamp \<Rightarrow> db \<Rightarrow> error + db" where
  "update_cart_total cid now s =
     (let t = cart_sum cid s in
      if t < 0 \<and> list_ex (\<lambda>c. cart_id c = cid) (cart s) then Inl IntegrityError
      else Inr (s\<lparr>cart := map (\<lambda>c. if cart_id c = cid
                                     then c\<lparr>cart_total_price := t, cart_updated_at := now\<rparr>
                                     else c) (cart s)\<rparr>))"

text \<open>\<^verbatim>\<open>UPDATE cart_items SET quantity = ? WHERE id = ?\<close>\<close>

definition set_quantity :: "int \<Rightarrow> int \<Rightarrow> db \<Rightarrow> db" where
  "set_quantity item_id q s =
     s\<lparr>cart_items := map (\<lambda>i. if ci_id i = item_id then i\<lparr>ci_quantity := q\<rparr> else i)
                          (cart_items s)\<rparr>"

text \<open>
  \<^verbatim>\<open>add_to_cart\<close> binds \<open>user_id\<close> in the query for the cart,
  \<open>software_id\<close> in the query for the price, and the quantity it writes
  (\<open>new_quantity\<close> in the \<^verbatim>\<open>UPDATE\<close>, \<open>quantity\<close> in the \<^verbatim>\<open>INSERT\<close>) in the
  statement that writes it; the \<^verbatim>\<open>CHECK\<close>s are tested when the statement runs.
\<close>

definition add_to_cart :: "int \<Rightarrow> int \<Rightarrow> int \<Rightarrow> timestamp \<Rightarrow> db \<Rightarrow> error + (int \<times> db)" where
  "add_to_cart user_id software_id quantity now s =
     (if \<not> in_int64 user_id then Inl OverflowError
      else
      case find (\<lambda>c. cart_user_id c = user_id) (cart s) of
        None \<Rightarrow> Inl (ValueError (Cart_not_found user_id))
      | Some c \<Rightarrow>
          let cid = cart_id c in
          if \<not> in_int64 software_id then Inl OverflowError
          else
          (case find (\<lambda>w. sw_id w = software_id) (software s) of
             None \<Rightarrow> Inl (ValueError (Software_not_found software_id))
           | Some w \<Rightarrow>
               let price_at_add = sw_price w in
               (case find (\<lambda>i. ci_cart_id i = cid \<and> ci_software_id i = software_id)
                          (cart_items s) of
                  Some existing_item \<Rightarrow>
                    let new_quantity = ci_quantity existing_item + quantity in
                    if \<not> in_int64 new_quantity then Inl OverflowError
                    else if new_quantity \<le> 0 then Inl IntegrityError
                    else (case update_cart_total cid now
                                 (set_quantity (ci_id existing_item) new_quantity s) of
                            Inl e \<Rightarrow> Inl e
                          | Inr s' \<Rightarrow> Inr (ci_id existing_item, s'))
                | None \<Rightarrow>
                    if \<not> in_int64 quantity then Inl OverflowError
                    else if quantity \<le> 0 \<or> price_at_add < 0 then Inl IntegrityError
                    else
                      let item_id = autoincrement (seq_cart_items s)
                                                  (map ci_id (cart_items s)) in
                      (case update_cart_total cid now
                              (s\<lparr>cart_items := cart_items s @
                                   [\<lparr>ci_id = item_id, ci_cart_id = cid,
                                     ci_software_id = software_id, ci_quantity = quantity,
                                     ci_price_at_add = price_at_add, ci_added_at = now\<rparr>],
                                 seq_cart_items := item_id\<rparr>) of
                         Inl e \<Rightarrow> Inl e
                       | Inr s' \<Rightarrow> Inr (item_id, s')))))"

text \<open>
  \<^verbatim>\<open>remove_from_cart\<close> binds \<open>item_id\<close> in its first statement,
  \<^verbatim>\<open>SELECT cart_id FROM cart_items WHERE id = ?\<close>.
\<close>

definition remove_from_cart :: "int \<Rightarrow> timestamp \<Rightarrow> db \<Rightarrow> error + db" where
  "remove_from_cart item_id now s =
     (if \<not> in_int64 item_id then Inl OverflowError
      else
      case find (\<lambda>i. ci_id i = item_id) (cart_items s) of
        None \<Rightarrow> Inl (ValueError (Cart_item_not_found item_id))
      | Some item \<Rightarrow>
          let cid = ci_cart_id item in
          update_cart_total cid now
            (s\<lparr>cart_items := filter (\<lambda>i. ci_id i \<noteq> item_id) (cart_items s)\<rparr>))"

text \<open>
  \<^verbatim>\<open>update_cart_item_quantity\<close> hands a quantity of zero or less to
  \<^verbatim>\<open>remove_from_cart\<close>. Otherwise it binds \<open>item_id\<close> in the same
  \<^verbatim>\<open>SELECT\<close>, subscripts the row (\<^verbatim>\<open>item['cart_id']\<close>, with no test for
  \<^verbatim>\<open>None\<close>) and only then binds \<open>quantity\<close>, in the \<^verbatim>\<open>UPDATE\<close>.
\<close>

definition update_cart_item_quantity :: "int \<Rightarrow> int \<Rightarrow> timestamp \<Rightarrow> db \<Rightarrow> error + db" where
  "update_cart_item_quantity item_id quantity now s =
     (if quantity \<le> 0 then remove_from_cart item_id now s
      else if \<not> in_int64 item_id then Inl OverflowError
      else (case find (\<lambda>i. ci_id i = item_id) (cart_items s) of
              None \<Rightarrow> Inl TypeError
            | Some item \<Rightarrow>
                let cid = ci_cart_id item in
                if \<not> in_int64 quantity then Inl OverflowError
                else update_cart_total cid now (set_quantity item_id quantity s)))"

text \<open>
  \<^verbatim>\<open>DELETE FROM cart_items WHERE cart_id = ?\<close> followed by
  \<^verbatim>\<open>UPDATE cart SET total_price = 0, updated_at = CURRENT_TIMESTAMP WHERE id = ?\<close>, the
  two statements \<^verbatim>\<open>clear_cart\<close> consists of and \<^verbatim>\<open>create_purchase\<close> ends with.
\<close>

definition empty_cart :: "int \<Rightarrow> timestamp \<Rightarrow> db \<Rightarrow> db" where
  "empty_cart cid now s =
     s\<lparr>cart_items := filter (\<lambda>i. ci_cart_id i \<noteq> cid) (cart_items s),
       cart := map (\<lambda>c. if cart_id c = cid
                         then c\<lparr>cart_total_price := 0, cart_updated_at := now\<rparr>
                         else c) (cart s)\<rparr>"

definition clear_cart :: "int \<Rightarrow> timestamp \<Rightarrow> db \<Rightarrow> error + db" where
  "clear_cart user_id now s =
     (if \<not> in_int64 user_id then Inl OverflowError
      else
      case find (\<lambda>c. cart_user_id c = user_id) (cart s) of
        None \<Rightarrow> Inl (ValueError (Cart_not_found user_id))
      | Some c \<Rightarrow>
          let cid = cart_id c in
          Inr (empty_cart cid now s))"

text \<open>
  A sequence of cart operations, each with the time it runs at. \<open>run_cart_ops\<close>
  returns the database after each operation, and \<open>None\<close> as soon as one of them
  raises.
\<close>

datatype cart_op =
    AddToCart int int int
  | UpdateQuantity int int
  | RemoveFromCart int

fun apply_cart_op :: "timestamp \<Rightarrow> cart_op \<Rightarrow> db \<Rightarrow> error + db" where
  "apply_cart_op now (AddToCart user_id software_id quantity) s =
     (case add_to_cart user_id software_id quantity now s of
        Inl e \<Rightarrow> Inl e | Inr (item_id, s') \<Rightarrow> Inr s')"
| "apply_cart_op now (UpdateQuantity item_id quantity) s =
     update_cart_item_quantity item_id quantity now s"
| "apply_cart_op now (RemoveFromCart item_id) s = remove_from_cart item_id now s"

fun run_cart_ops :: "(timestamp \<times> cart_op) list \<Rightarrow> db \<Rightarrow> db list option" where
  "run_cart_ops [] s = Some []"
| "run_cart_ops ((now, op) # ops) s =
     (case apply_cart_op now op s of
        Inl e \<Rightarrow> None
      | Inr s' \<Rightarrow> (case run_cart_ops ops s' of None \<Rightarrow> None | Some tr \<Rightarrow> Some (s' # tr)))"

text \<open>
  The invariant of the spec: every cart's \<^verbatim>\<open>total_price\<close> is the sum over its
  lines of \<^verbatim>\<open>quantity * price_at_add\<close>. The primary key of \<^verbatim>\<open>cart_items\<close>
  is what SQLite enforces on the table.
\<close>

definition cart_total_ok :: "db \<Rightarrow> bool" where
  "cart_total_ok s =
     list_all (\<lambda>c. cart_total_price c = cart_sum (cart_id c) s) (cart s)"

definition cart_items_pk :: "db \<Rightarrow> bool" where
  "cart_items_pk s = distinct (map ci_id (cart_items s))"


section \<open>The catalog\<close>

text \<open>
  \<^verbatim>\<open>update_software\<close> builds \<^verbatim>\<open>UPDATE software SET \<dots> WHERE id = ?\<close> from
  the arguments that are not \<^verbatim>\<open>None\<close> and runs nothing when all of them are.
  The only \<^verbatim>\<open>CHECK\<close> among the columns it can write is \<^verbatim>\<open>price >= 0\<close>.
\<close>

definition set_column :: "'a option \<Rightarrow> 'a \<Rightarrow> 'a" where
  "set_column new old = (case new of None \<Rightarrow> old | Some v \<Rightarrow> v)"

definition set_nullable :: "'a option \<Rightarrow> 'a option \<Rightarrow> 'a option" where
  "set_nullable new old = (case new of None \<Rightarrow> old | Some v \<Rightarrow> Some v)"

definition update_software ::
  "int \<Rightarrow> string option \<Rightarrow> string option \<Rightarrow> real option \<Rightarrow> int option \<Rightarrow>
   string option \<Rightarrow> string option \<Rightarrow> db \<Rightarrow> error + db" where
  "update_software software_id name description price category_id developer image_url s =
     (if name = None \<and> description = None \<and> price = None \<and> category_id = None \<and>
         developer = None \<and> image_url = None
      then Inr s
      else if (case price of None \<Rightarrow> False | Some p \<Rightarrow> p < 0) \<and>
              list_ex (\<lambda>w. sw_id w = software_id) (software s)
      then Inl IntegrityError
      else Inr (s\<lparr>software :=
                    map (\<lambda>w. if sw_id w = software_id
                              then w\<lparr>sw_name := set_column name (sw_name w),
                                     sw_description := set_nullable description (sw_description w),
                                     sw_price := set_column price (sw_price w),
                                     sw_category_id := set_column category_id (sw_category_id w),
                                     sw_developer := set_column developer (sw_developer w),
                                     sw_image_url := set_nullable image_url (sw_image_url w)\<rparr>
                              else w) (software s)\<rparr>))"

text \<open>
  \<^verbatim>\<open>DELETE FROM categories WHERE id = ?\<close> and \<^verbatim>\<open>DELETE FROM software WHERE id = ?\<close>
  on a connection \<open>conn\<close>. The schema declares
  \<^verbatim>\<open>software.category_id REFERENCES categories(id) ON DELETE RESTRICT\<close>,
  \<^verbatim>\<open>cart_items.software_id\<close> and \<^verbatim>\<open>purchase_items.software_id REFERENCES software(id) ON DELETE RESTRICT\<close>
  and \<^verbatim>\<open>reviews.software_id REFERENCES software(id) ON DELETE CASCADE\<close>. SQLite acts
  on these clauses only on a connection that has foreign keys switched on.
\<close>

definition sql_delete_category :: "connection \<Rightarrow> int \<Rightarrow> db \<Rightarrow> error + db" where
  "sql_delete_category conn category_id s =
     (if foreign_keys conn \<and> list_ex (\<lambda>c. cat_id c = category_id) (categories s) \<and>
         list_ex (\<lambda>w. sw_category_id w = category_id) (software s)
      then Inl IntegrityError
      else Inr (s\<lparr>categories := filter (\<lambda>c. cat_id c \<noteq> category_id) (categories s)\<rparr>))"

definition sql_delete_software :: "connection \<Rightarrow> int \<Rightarrow> db \<Rightarrow> error + db" where
  "sql_delete_software conn software_id s =
     (if foreign_keys conn \<and> list_ex (\<lambda>w. sw_id w = software_id) (software s) \<and>
         (list_ex (\<lambda>i. ci_software_id i = software_id) (cart_items s) \<or>
          list_ex (\<lambda>p. pi_software_id p = software_id) (purchase_items s))
      then Inl IntegrityError
      else Inr (s\<lparr>software := filter (\<lambda>w. sw_id w \<noteq> software_id) (software s),
                   reviews := (if foreign_keys conn \<and>
                                  list_ex (\<lambda>w. sw_id w = software_id) (software s)
                               then filter (\<lambda>r. rv_software_id r \<noteq> software_id) (reviews s)
                               else reviews s)\<rparr>))"

text \<open>
  \<^verbatim>\<open>delete_category\<close> and \<^verbatim>\<open>delete_software\<close> run the statement on the
  connection \<^verbatim>\<open>get_db_connection\<close> gives them, log and re-raise an
  \<^verbatim>\<open>sqlite3.IntegrityError\<close>.
\<close>

definition delete_category :: "int \<Rightarrow> db \<Rightarrow> error + db" where
  "delete_category category_id s = sql_delete_category get_db_connection category_id s"

definition delete_software :: "int \<Rightarrow> db \<Rightarrow> error + db" where
  "delete_software software_id s = sql_delete_software get_db_connection software_id s"

section \<open>Reviews and the average rating\<close>

text \<open>
  \<^verbatim>\<open>SELECT 1 FROM purchase_items pi JOIN purchase_history ph ON ph.id = pi.purchase_id
  WHERE ph.user_id = ? AND pi.software_id = ? AND ph.status = 'completed' LIMIT 1\<close>
\<close>

definition user_has_purchased_software :: "int \<Rightarrow> int \<Rightarrow> db \<Rightarrow> bool" where
  "user_has_purchased_software user_id software_id s =
     list_ex (\<lambda>p. pi_software_id p = software_id \<and>
                   list_ex (\<lambda>h. ph_id h = pi_purchase_id p \<and> ph_user_id h = user_id \<and>
                                 ph_status h = ''completed'') (purchase_history s))
             (purchase_items s)"

text \<open>
  \<^verbatim>\<open>SELECT AVG(rating) FROM reviews WHERE software_id = ?\<close>: \<^verbatim>\<open>NULL\<close> when the
  item has no review.
\<close>

definition software_reviews :: "int \<Rightarrow> db \<Rightarrow> review_row list" where
  "software_reviews software_id s = filter (\<lambda>r. rv_software_id r = software_id) (reviews s)"

definition avg_rating :: "int \<Rightarrow> db \<Rightarrow> real option" where
  "avg_rating software_id s =
     (let rs = software_reviews software_id s in
      if rs = [] then None
      else Some (real_of_int (sum_list (map rv_rating rs)) / real (length rs)))"

text \<open>
  Python's \<^verbatim>\<open>x or 0.0\<close> on a value that is \<^verbatim>\<open>None\<close> or a float: \<^verbatim>\<open>0.0\<close>
  for \<^verbatim>\<open>None\<close> and for the float zero, \<^verbatim>\<open>x\<close> otherwise.
\<close>

definition or_zero :: "real option \<Rightarrow> real option" where
  "or_zero x = (case x of None \<Rightarrow> Some 0 | Some a \<Rightarrow> Some a)"

text \<open>
  \<^verbatim>\<open>UPDATE software SET rating_avg = ? WHERE id = ?\<close>, with the column's
  \<^verbatim>\<open>CHECK(rating_avg >= 0 AND rating_avg <= 5)\<close>, which \<^verbatim>\<open>NULL\<close> passes.
\<close>

definition set_rating_avg :: "real option \<Rightarrow> int \<Rightarrow> db \<Rightarrow> error + db" where
  "set_rating_avg avg software_id s =
     (if (case avg of None \<Rightarrow> False | Some a \<Rightarrow> a < 0 \<or> 5 < a) \<and>
         list_ex (\<lambda>w. sw_id w = software_id) (software s)
      then Inl IntegrityError
      else Inr (s\<lparr>software := map (\<lambda>w. if sw_id w = software_id
                                         then w\<lparr>sw_rating_avg := avg\<rparr> else w)
                                   (software s)\<rparr>))"

text \<open>
  \<^verbatim>\<open>add_or_update_review\<close>. The \<^verbatim>\<open>UPDATE\<close> of the existing row writes
  \<^verbatim>\<open>rating\<close> and \<^verbatim>\<open>comment\<close> and no other column. Both statements are under
  \<^verbatim>\<open>CHECK(rating >= 1 AND rating <= 5)\<close>.
\<close>

definition add_or_update_review ::
  "int \<Rightarrow> int \<Rightarrow> int \<Rightarrow> string \<Rightarrow> timestamp \<Rightarrow> db \<Rightarrow> error + db" where
  "add_or_update_review user_id software_id rating text now s =
     (if rating < 1 \<or> 5 < rating then Inl IntegrityError
      else
        let s1 =
          (case find (\<lambda>r. rv_user_id r = user_id \<and> rv_software_id r = software_id)
                     (reviews s) of
             Some existing \<Rightarrow>
               let review_id = rv_id existing in
               s\<lparr>reviews := map (\<lambda>r. if rv_id r = review_id
                                        then r\<lparr>rv_rating := rating, rv_comment := Some text\<rparr>
                                        else r) (reviews s)\<rparr>
           | None \<Rightarrow>
               let review_id = autoincrement (seq_reviews s) (map rv_id (reviews s)) in
               s\<lparr>reviews := reviews s @
                    [\<lparr>rv_id = review_id, rv_user_id = user_id, rv_software_id = software_id,
                      rv_rating = rating, rv_comment = Some text, rv_created_at = now\<rparr>],
                  seq_reviews := review_id\<rparr>);
          avg_rating = or_zero (avg_rating software_id s1)
        in set_rating_avg avg_rating software_id s1)"

text \<open>
  \<^verbatim>\<open>add_review\<close>: a plain \<^verbatim>\<open>INSERT\<close>, which \<^verbatim>\<open>UNIQUE(user_id, software_id)\<close>
  refuses when the user has reviewed the item already. It returns the new review's id.
\<close>

definition add_review ::
  "int \<Rightarrow> int \<Rightarrow> int \<Rightarrow> string option \<Rightarrow> timestamp \<Rightarrow> db \<Rightarrow> error + (int \<times> db)" where
  "add_review user_id software_id rating comment now s =
     (if rating < 1 \<or> 5 < rating \<or>
         list_ex (\<lambda>r. rv_user_id r = user_id \<and> rv_software_id r = software_id) (reviews s)
      then Inl IntegrityError
      else
        let review_id = autoincrement (seq_reviews s) (map rv_id (reviews s));
            s1 = s\<lparr>reviews := reviews s @
                      [\<lparr>rv_id = review_id, rv_user_id = user_id, rv_software_id = software_id,
                        rv_rating = rating, rv_comment = comment, rv_created_at = now\<rparr>],
                    seq_reviews := review_id\<rparr>;
            avg_rating = avg_rating software_id s1
        in (case set_rating_avg avg_rating software_id s1 of
              Inl e \<Rightarrow> Inl e
            | Inr s' \<Rightarrow> Inr (review_id, s')))"

text \<open>
  \<^verbatim>\<open>update_review\<close>: nothing happens when both arguments are \<^verbatim>\<open>None\<close>;
  otherwise the row is updated, then looked up for its \<^verbatim>\<open>software_id\<close>
  (\<^verbatim>\<open>review['software_id']\<close> on a missing row is the \<open>TypeError\<close>).
\<close>

definition update_review :: "int \<Rightarrow> int option \<Rightarrow> string option \<Rightarrow> db \<Rightarrow> error + db" where
  "update_review review_id rating comment s =
     (if rating = None \<and> comment = None then Inr s
      else if (case rating of None \<Rightarrow> False | Some r \<Rightarrow> r < 1 \<or> 5 < r) \<and>
              list_ex (\<lambda>r. rv_id r = review_id) (reviews s)
      then Inl IntegrityError
      else
        let s1 = s\<lparr>reviews := map (\<lambda>r. if rv_id r = review_id
                                         then r\<lparr>rv_rating := set_column rating (rv_rating r),
                                                rv_comment := set_nullable comment (rv_comment r)\<rparr>
                                         else r) (reviews s)\<rparr>
        in (case find (\<lambda>r. rv_id r = review_id) (reviews s1) of
              None \<Rightarrow> Inl TypeError
            | Some review \<Rightarrow>
                let software_id = rv_software_id review;
                    avg_rating = avg_rating software_id s1
                in set_rating_avg avg_rating software_id s1))"

definition delete_review :: "int \<Rightarrow> db \<Rightarrow> error + db" where
  "delete_review review_id s =
     (case find (\<lambda>r. rv_id r = review_id) (reviews s) of
        None \<Rightarrow> Inl TypeError
      | Some review \<Rightarrow>
          let software_id = rv_software_id review;
              s1 = s\<lparr>reviews := filter (\<lambda>r. rv_id r \<noteq> review_id) (reviews s)\<rparr>;
              avg_rating = or_zero (avg_rating software_id s1)
          in set_rating_avg avg_rating software_id s1)"

text \<open>
  The arithmetic mean of the spec: the mean of the ratings of the item's reviews, 0 when
  it has none.
\<close>

definition mean_rating :: "int \<Rightarrow> db \<Rightarrow> real" where
  "mean_rating software_id s =
     (let ratings = map rv_rating (software_reviews software_id s) in
      if ratings = [] then 0
      else real_of_int (sum_list ratings) / real (length ratings))"


text \<open>The constraints SQLite enforces on \<^verbatim>\<open>reviews\<close>.\<close>

definition reviews_pk :: "db \<Rightarrow> bool" where
  "reviews_pk s = distinct (map rv_id (reviews s))"

definition reviews_unique :: "db \<Rightarrow> bool" where
  "reviews_unique s = distinct (map (\<lambda>r. (rv_user_id r, rv_software_id r)) (reviews s))"

text \<open>The rows of \<^verbatim>\<open>reviews\<close> a user has written for an item.\<close>

definition reviews_of :: "int \<Rightarrow> int \<Rightarrow> db \<Rightarrow> review_row list" where
  "reviews_of user_id software_id s =
     filter (\<lambda>r. rv_user_id r = user_id \<and> rv_software_id r = software_id) (reviews s)"





section \<open>Checkout and the purchase history\<close>

text \<open>
  A row of the query of \<^verbatim>\<open>create_purchase\<close>,
  \<^verbatim>\<open>SELECT ci.software_id, ci.quantity, ci.price_at_add, s.name, s.developer
  FROM cart_items ci JOIN software s ON ci.software_id = s.id WHERE ci.cart_id = ?\<close>.
  The inner join gives one row for every pair of a line of the cart and a row of
  \<^verbatim>\<open>software\<close> with the line's \<^verbatim>\<open>software_id\<close>: none for a line whose item
  is gone. The query has no \<^verbatim>\<open>ORDER BY\<close>; SQLite finds the lines of the cart
  through the index of \<^verbatim>\<open>UNIQUE(cart_id, software_id)\<close> and so returns them by
  ascending \<^verbatim>\<open>software_id\<close>, not in the order they were added.
\<close>

record checkout_row =
  co_software_id :: int
  co_quantity :: int
  co_price_at_add :: real
  co_name :: string
  co_developer :: string

definition cart_index_lines :: "int \<Rightarrow> db \<Rightarrow> cart_item_row list" where
  "cart_index_lines cid s = sort_key ci_software_id (cart_lines cid s)"

definition checkout_rows :: "int \<Rightarrow> db \<Rightarrow> checkout_row list" where
  "checkout_rows cid s =
     concat (map (\<lambda>i. map (\<lambda>w. \<lparr>co_software_id = ci_software_id i,
                                  co_quantity = ci_quantity i,
                                  co_price_at_add = ci_price_at_add i,
                                  co_name = sw_name w, co_developer = sw_developer w\<rparr>)
                           (filter (\<lambda>w. sw_id w = ci_software_id i) (software s)))
                 (cart_index_lines cid s))"

text \<open>
  The loop \<^verbatim>\<open>for item in cart_items\<close>: insert the purchase line (under
  \<^verbatim>\<open>CHECK(quantity > 0)\<close> and \<^verbatim>\<open>CHECK(price_at_purchase >= 0)\<close>), then
  \<^verbatim>\<open>UPDATE software SET downloads = downloads + ? WHERE id = ?\<close>.
\<close>

fun copy_cart_items :: "int \<Rightarrow> checkout_row list \<Rightarrow> db \<Rightarrow> error + db" where
  "copy_cart_items purchase_id [] s = Inr s"
| "copy_cart_items purchase_id (item # items) s =
     (if co_quantity item \<le> 0 \<or> co_price_at_add item < 0 then Inl IntegrityError
      else
        let line_id = autoincrement (seq_purchase_items s) (map pi_id (purchase_items s)) in
        copy_cart_items purchase_id items
          (s\<lparr>purchase_items := purchase_items s @
                [\<lparr>pi_id = line_id, pi_purchase_id = purchase_id,
                  pi_software_id = co_software_id item, pi_software_name = co_name item,
                  pi_developer = co_developer item, pi_quantity = co_quantity item,
                  pi_price_at_purchase = co_price_at_add item\<rparr>],
              seq_purchase_items := line_id,
              software := map (\<lambda>w. if sw_id w = co_software_id item
                                    then w\<lparr>sw_downloads := sw_downloads w + co_quantity item\<rparr>
                                    else w) (software s)\<rparr>))"

text \<open>
  \<^verbatim>\<open>INSERT INTO purchase_history (user_id, total_price, payment_method) VALUES (?, ?, ?)\<close>
  with the defaults of the other columns, and \<^verbatim>\<open>cursor.lastrowid\<close>. The caller has
  checked \<^verbatim>\<open>CHECK(total_price >= 0)\<close>.
\<close>

definition insert_purchase ::
  "int \<Rightarrow> real \<Rightarrow> string option \<Rightarrow> timestamp \<Rightarrow> db \<Rightarrow> int \<times> db" where
  "insert_purchase user_id total_price payment_method now s =
     (let purchase_id = autoincrement (seq_purchase_history s) (map ph_id (purchase_history s))
      in (purchase_id,
          s\<lparr>purchase_history := purchase_history s @
                [\<lparr>ph_id = purchase_id, ph_user_id = user_id, ph_total_price = total_price,
                  ph_payment_method = payment_method, ph_status = ''completed'',
                  ph_purchased_at = now\<rparr>],
            seq_purchase_history := purchase_id\<rparr>))"

definition create_purchase ::
  "int \<Rightarrow> string option \<Rightarrow> timestamp \<Rightarrow> db \<Rightarrow> error + (int \<times> db)" where
  "create_purchase user_id payment_method now s =
     (case find (\<lambda>c. cart_user_id c = user_id) (cart s) of
        None \<Rightarrow> Inl (ValueError (Cart_not_found user_id))
      | Some c \<Rightarrow>
          if cart_total_price c = 0 then Inl (ValueError (Cart_is_empty user_id))
          else
            let cid = cart_id c;
                total_price = cart_total_price c
            in
            if total_price < 0 then Inl IntegrityError
            else
              let (purchase_id, s1) = insert_purchase user_id total_price payment_method now s;
                  items = checkout_rows cid s1
              in
              (case copy_cart_items purchase_id items s1 of
                 Inl e \<Rightarrow> Inl e
               | Inr s2 \<Rightarrow> Inr (purchase_id, empty_cart cid now s2)))"

text \<open>\<^verbatim>\<open>SELECT * FROM purchase_items WHERE purchase_id = ?\<close>\<close>

definition get_purchase_items :: "int \<Rightarrow> db \<Rightarrow> purchase_item_row list" where
  "get_purchase_items purchase_id s =
     filter (\<lambda>p. pi_purchase_id p = purchase_id) (purchase_items s)"

text \<open>
  \<^verbatim>\<open>get_purchases_with_items\<close> reads rows through \<^verbatim>\<open>sqlite3.Row\<close>. Such a row is
  the list of its columns, name and value, in the order of the \<^verbatim>\<open>SELECT\<close>;
  \<^verbatim>\<open>row[name]\<close> walks the list and returns the first column with that name. That
  matters here: the query selects \<^verbatim>\<open>pi.*, s.name AS software_name\<close>, so its rows
  have two columns called \<^verbatim>\<open>software_name\<close>, the one of \<^verbatim>\<open>purchase_items\<close>
  first.
\<close>

datatype sqlval = Integer int | Real real | Text string | Null

type_synonym row = "(string \<times> sqlval) list"

definition row_get :: "row \<Rightarrow> string \<Rightarrow> error + sqlval" where
  "row_get r name = (case map_of r name of None \<Rightarrow> Inl IndexError | Some v \<Rightarrow> Inr v)"

definition purchase_item_columns :: "purchase_item_row \<Rightarrow> row" where
  "purchase_item_columns p =
     [(''id'', Integer (pi_id p)),
      (''purchase_id'', Integer (pi_purchase_id p)),
      (''software_id'', Integer (pi_software_id p)),
      (''software_name'', Text (pi_software_name p)),
      (''developer'', Text (pi_developer p)),
      (''quantity'', Integer (pi_quantity p)),
      (''price_at_purchase'', Real (pi_price_at_purchase p))]"

text \<open>
  \<^verbatim>\<open>SELECT pi.*, s.name AS software_name FROM purchase_items pi
  JOIN software s ON s.id = pi.software_id WHERE pi.purchase_id IN (\<dots>) ORDER BY pi.id\<close>
\<close>

definition items_rows :: "int list \<Rightarrow> db \<Rightarrow> row list" where
  "items_rows purchase_ids s =
     concat (map (\<lambda>p. map (\<lambda>w. purchase_item_columns p @ [(''software_name'', Text (sw_name w))])
                           (filter (\<lambda>w. sw_id w = pi_software_id p) (software s)))
                 (sort_key pi_id
                    (filter (\<lambda>p. pi_purchase_id p \<in> set purchase_ids) (purchase_items s))))"

text \<open>The dictionary \<^verbatim>\<open>get_purchases_with_items\<close> makes of a row.\<close>

definition item_dict :: "row \<Rightarrow> error + row" where
  "item_dict r =
     (case row_get r ''id'' of Inl e \<Rightarrow> Inl e | Inr v_id \<Rightarrow>
      case row_get r ''software_id'' of Inl e \<Rightarrow> Inl e | Inr v_software_id \<Rightarrow>
      case row_get r ''software_name'' of Inl e \<Rightarrow> Inl e | Inr v_name \<Rightarrow>
      case row_get r ''quantity'' of Inl e \<Rightarrow> Inl e | Inr v_quantity \<Rightarrow>
      case row_get r ''price_at_purchase'' of Inl e \<Rightarrow> Inl e | Inr v_price \<Rightarrow>
        Inr [(''id'', v_id), (''software_id'', v_software_id), (''name'', v_name),
             (''quantity'', v_quantity), (''price'', v_price)])"

text \<open>
  The loop that fills \<^verbatim>\<open>items_by_purchase\<close>, a dictionary from the purchase id to
  the list of its item dictionaries.
\<close>

fun group_items :: "row list \<Rightarrow> (int \<rightharpoonup> row list) \<Rightarrow> error + (int \<rightharpoonup> row list)" where
  "group_items [] items_by_purchase = Inr items_by_purchase"
| "group_items (r # rs) items_by_purchase =
     (case row_get r ''purchase_id'' of
        Inl e \<Rightarrow> Inl e
      | Inr (Integer purchase_id) \<Rightarrow>
          (case item_dict r of
             Inl e \<Rightarrow> Inl e
           | Inr d \<Rightarrow>
               group_items rs
                 (items_by_purchase(purchase_id \<mapsto>
                    (case items_by_purchase purchase_id of None \<Rightarrow> [] | Some ds \<Rightarrow> ds) @ [d])))
      | Inr _ \<Rightarrow> Inl TypeError)"

text \<open>
  What the loop reads of a row: the purchase id and the item dictionary.
\<close>

definition row_key :: "row \<Rightarrow> (error + sqlval) \<times> (error + row)" where
  "row_key r = (row_get r ''purchase_id'', item_dict r)"

text \<open>
  \<^verbatim>\<open>ORDER BY purchased_at DESC\<close> (rows with the same time stay in rowid order) and
  \<^verbatim>\<open>LIMIT ?\<close>, which SQLite ignores when the bound is negative.
\<close>

definition order_by_desc :: "('a \<Rightarrow> nat) \<Rightarrow> 'a list \<Rightarrow> 'a list" where
  "order_by_desc key xs = rev (sort_key key (rev xs))"

definition sql_limit :: "int option \<Rightarrow> 'a list \<Rightarrow> 'a list" where
  "sql_limit limit xs =
     (case limit of None \<Rightarrow> xs | Some n \<Rightarrow> (if n < 0 then xs else take (nat n) xs))"

record purchase_with_items =
  pw_purchase :: purchase_row
  pw_items :: "row list"

definition get_purchases_with_items ::
  "int \<Rightarrow> int option \<Rightarrow> db \<Rightarrow> error + purchase_with_items list" where
  "get_purchases_with_items user_id limit s =
     (let purchases = sql_limit limit
                        (order_by_desc ph_purchased_at
                           (filter (\<lambda>h. ph_user_id h = user_id) (purchase_history s)))
      in if purchases = [] then Inr []
         else
           let purchase_ids = map ph_id purchases in
           (case group_items (items_rows purchase_ids s) Map.empty of
              Inl e \<Rightarrow> Inl e
            | Inr items_by_purchase \<Rightarrow>
                Inr (map (\<lambda>p. \<lparr>pw_purchase = p,
                                pw_items = (case items_by_purchase (ph_id p) of
                                              None \<Rightarrow> [] | Some ds \<Rightarrow> ds)\<rparr>)
                         purchases)))"

text \<open>
  The integrity the schema declares for the tables of checkout: the primary key of
  \<^verbatim>\<open>software\<close>, the \<^verbatim>\<open>CHECK\<close>s and the \<^verbatim>\<open>UNIQUE(cart_id, software_id)\<close> of
  \<^verbatim>\<open>cart_items\<close>, which SQLite enforces, and the foreign keys
  \<^verbatim>\<open>cart_items.software_id REFERENCES software(id)\<close> and
  \<^verbatim>\<open>purchase_items.purchase_id REFERENCES purchase_history(id)\<close>, which it enforces
  only on a connection that asks for it.
\<close>

definition software_pk :: "db \<Rightarrow> bool" where
  "software_pk s = distinct (map sw_id (software s))"

definition cart_items_check :: "db \<Rightarrow> bool" where
  "cart_items_check s = list_all (\<lambda>i. 0 < ci_quantity i \<and> 0 \<le> ci_price_at_add i) (cart_items s)"

definition cart_items_unique :: "db \<Rightarrow> bool" where
  "cart_items_unique s = distinct (map (\<lambda>i. (ci_cart_id i, ci_software_id i)) (cart_items s))"

definition cart_check :: "db \<Rightarrow> bool" where
  "cart_check s = list_all (\<lambda>c. 0 \<le> cart_total_price c) (cart s)"

definition cart_items_fk :: "db \<Rightarrow> bool" where
  "cart_items_fk s =
     list_all (\<lambda>i. list_ex (\<lambda>w. sw_id w = ci_software_id i) (software s)) (cart_items s)"

definition purchase_items_fk :: "db \<Rightarrow> bool" where
  "purchase_items_fk s =
     list_all (\<lambda>p. list_ex (\<lambda>h. ph_id h = pi_purchase_id p) (purchase_history s))
              (purchase_items s)"

text \<open>The sum over the lines of a purchase of \<^verbatim>\<open>quantity * price_at_purchase\<close>.\<close>

definition purchase_sum :: "int \<Rightarrow> db \<Rightarrow> real" where
  "purchase_sum purchase_id s =
     sum_list (map (\<lambda>p. real_of_int (pi_quantity p) * pi_price_at_purchase p)
                   (get_purchase_items purchase_id s))"

text \<open>
  A purchase line \<open>p\<close> of purchase \<open>purchase_id\<close> holds the values of the
  fetched row \<open>item\<close>; and the quantity a list of fetched rows holds of an item.
\<close>

definition row_copied :: "int \<Rightarrow> checkout_row \<Rightarrow> purchase_item_row \<Rightarrow> bool" where
  "row_copied purchase_id item p =
     (pi_purchase_id p = purchase_id \<and> pi_software_id p = co_software_id item \<and>
      pi_software_name p = co_name item \<and> pi_developer p = co_developer item \<and>
      pi_quantity p = co_quantity item \<and> pi_price_at_purchase p = co_price_at_add item)"

definition rows_quantity :: "int \<Rightarrow> checkout_row list \<Rightarrow> int" where
  "rows_quantity software_id items =
     sum_list (map co_quantity (filter (\<lambda>it. co_software_id it = software_id) items))"

text \<open>
  A fetched row \<open>item\<close> is the row of the cart line \<open>i\<close>: the line's columns and
  the name and developer of the line's item in the catalog of \<open>s\<close>.
\<close>

definition line_fetched :: "db \<Rightarrow> cart_item_row \<Rightarrow> checkout_row \<Rightarrow> bool" where
  "line_fetched s i item =
     (co_software_id item = ci_software_id i \<and> co_quantity item = ci_quantity i \<and>
      co_price_at_add item = ci_price_at_add i \<and>
      list_ex (\<lambda>w. sw_id w = ci_software_id i \<and> sw_name w = co_name item \<and>
                    sw_developer w = co_developer item) (software s))"

text \<open>
  A purchase line \<open>p\<close> of purchase \<open>purchase_id\<close> is the copy of the cart line
  \<open>i\<close>: it has the line's item, quantity and \<^verbatim>\<open>price_at_add\<close>, and the name and
  developer of that item in the catalog of \<open>s\<close>.
\<close>

definition line_copied :: "db \<Rightarrow> int \<Rightarrow> cart_item_row \<Rightarrow> purchase_item_row \<Rightarrow> bool" where
  "line_copied s purchase_id i p =
     (pi_purchase_id p = purchase_id \<and> pi_software_id p = ci_software_id i \<and>
      pi_quantity p = ci_quantity i \<and> pi_price_at_purchase p = ci_price_at_add i \<and>
      list_ex (\<lambda>w. sw_id w = ci_software_id i \<and> sw_name w = pi_software_name p \<and>
                    sw_developer w = pi_developer p) (software s))"

text \<open>The quantity a list of cart lines holds of an item: that of its line, if any.\<close>

definition line_quantity :: "int \<Rightarrow> cart_item_row list \<Rightarrow> int" where
  "line_quantity software_id lines =
     (case find (\<lambda>i. ci_software_id i = software_id) lines of
        None \<Rightarrow> 0 | Some i \<Rightarrow> ci_quantity i)"

section \<open>The routes that submit a review\<close>

text \<open>
  The two handlers of \<^verbatim>\<open>app.py\<close> that write a review. Both are behind
  \<^verbatim>\<open>@login_required\<close>: \<open>user_id\<close> is the id in the session. A handler answers
  with a flashed message and a redirect; an exception it does not catch leaves the
  handler (\<open>Inl\<close>). The handlers are modelled from the point where the form has been
  read: \<open>rating_raw\<close> is \<open>None\<close> when the field \<^verbatim>\<open>rating\<close> is absent or is not
  a number and its value otherwise, and the text argument is the field
  \<^verbatim>\<open>comment\<close> after \<^verbatim>\<open>.strip()\<close> (the empty string when the field is absent).
\<close>

datatype flash =
    Only_buyers_may_review
  | Rating_must_be_1_to_5
  | Review_text_empty
  | Review_saved
  | Software_not_found_flash
  | Thanks_for_review
  | Already_reviewed
  | Error_flash error

definition add_software_review ::
  "int \<Rightarrow> int \<Rightarrow> int option \<Rightarrow> string \<Rightarrow> timestamp \<Rightarrow> db \<Rightarrow> error + (flash \<times> db)" where
  "add_software_review user_id software_id rating_raw text now s =
     (if \<not> user_has_purchased_software user_id software_id s
      then Inr (Only_buyers_may_review, s)
      else
        let rating = (case rating_raw of None \<Rightarrow> 0 | Some r \<Rightarrow> r)
        in if rating < 1 \<or> 5 < rating then Inr (Rating_must_be_1_to_5, s)
           else if text = [] then Inr (Review_text_empty, s)
           else (case add_or_update_review user_id software_id rating text now s of
                   Inl e \<Rightarrow> Inl e
                 | Inr s' \<Rightarrow> Inr (Review_saved, s')))"

definition add_review_route ::
  "int \<Rightarrow> int \<Rightarrow> int option \<Rightarrow> string \<Rightarrow> timestamp \<Rightarrow> db \<Rightarrow> flash \<times> db" where
  "add_review_route user_id software_id rating_raw comment now s =
     (let rating = (case rating_raw of None \<Rightarrow> 5 | Some r \<Rightarrow> r)
      in if rating < 1 \<or> 5 < rating then (Rating_must_be_1_to_5, s)
         else if \<not> list_ex (\<lambda>w. sw_id w = software_id) (software s)
         then (Software_not_found_flash, s)
         else (case add_review user_id software_id rating (Some comment) now s of
                 Inr (review_id, s') \<Rightarrow> (Thanks_for_review, s')
               | Inl IntegrityError \<Rightarrow> (Already_reviewed, s)
               | Inl e \<Rightarrow> (Error_flash e, s)))"

text \<open>
  A small shop to run the operations on: one category, three items (one of them free),
  the carts of two users, nothing bought or reviewed yet.
\<close>

definition demo_db :: db where
  "demo_db =
     \<lparr>categories = [\<lparr>cat_id = 1, cat_name = ''Graphics'', cat_description = None,
                     cat_created_at = 0\<rparr>],
      software =
        [\<lparr>sw_id = 1, sw_name = ''Photoshop'', sw_description = None, sw_price = 50,
          sw_category_id = 1, sw_developer = ''Adobe'', sw_downloads = 0,
          sw_rating_avg = Some 0, sw_image_url = None, sw_created_at = 0\<rparr>,
         \<lparr>sw_id = 2, sw_name = ''Figma'', sw_description = None, sw_price = 30,
          sw_category_id = 1, sw_developer = ''Figma'', sw_downloads = 0,
          sw_rating_avg = Some 0, sw_image_url = None, sw_created_at = 0\<rparr>,
         \<lparr>sw_id = 3, sw_name = ''Viewer'', sw_description = None, sw_price = 0,
          sw_category_id = 1, sw_developer = ''Free'', sw_downloads = 0,
          sw_rating_avg = Some 0, sw_image_url = None, sw_created_at = 0\<rparr>],
      cart =
        [\<lparr>cart_id = 1, cart_user_id = 1, cart_total_price = 0, cart_created_at = 0,
          cart_updated_at = 0\<rparr>,
         \<lparr>cart_id = 2, cart_user_id = 2, cart_total_price = 0, cart_created_at = 0,
          cart_updated_at = 0\<rparr>],
      cart_items = [], purchase_history = [], purchase_items = [], reviews = [],
      seq_cart_items = 0, seq_purchase_history = 0, seq_purchase_items = 0,
      seq_reviews = 0\<rparr>"

text \<open>
  The shop after user 1 has put one Photoshop and two Figma in the cart
  (\<open>demo_cart_db\<close>), after the checkout of that cart (\<open>demo_bought_db\<close>), after
  the buyer's review of Photoshop (\<open>demo_review_db\<close>); the shop after user 1 has
  put the free Viewer in the cart (\<open>demo_free_db\<close>); and the shop with the filled
  cart after Figma has been deleted from the catalog (\<open>demo_dangling_db\<close>).
\<close>

definition demo_cart_db :: db where
  "demo_cart_db =
     demo_db\<lparr>cart_items :=
               [\<lparr>ci_id = 1, ci_cart_id = 1, ci_software_id = 1, ci_quantity = 1,
                 ci_price_at_add = 50, ci_added_at = 1\<rparr>,
                \<lparr>ci_id = 2, ci_cart_id = 1, ci_software_id = 2, ci_quantity = 2,
                 ci_price_at_add = 30, ci_added_at = 2\<rparr>],
             cart :=
               [\<lparr>cart_id = 1, cart_user_id = 1, cart_total_price = 110, cart_created_at = 0,
                 cart_updated_at = 2\<rparr>,
                \<lparr>cart_id = 2, cart_user_id = 2, cart_total_price = 0, cart_created_at = 0,
                 cart_updated_at = 0\<rparr>],
             seq_cart_items := 2\<rparr>"

definition demo_bought_db :: db where
  "demo_bought_db =
     demo_db\<lparr>software :=
               [\<lparr>sw_id = 1, sw_name = ''Photoshop'', sw_description = None, sw_price = 50,
                 sw_category_id = 1, sw_developer = ''Adobe'', sw_downloads = 1,
                 sw_rating_avg = Some 0, sw_image_url = None, sw_created_at = 0\<rparr>,
                \<lparr>sw_id = 2, sw_name = ''Figma'', sw_description = None, sw_price = 30,
                 sw_category_id = 1, sw_developer = ''Figma'', sw_downloads = 2,
                 sw_rating_avg = Some 0, sw_image_url = None, sw_created_at = 0\<rparr>,
                \<lparr>sw_id = 3, sw_name = ''Viewer'', sw_description = None, sw_price = 0,
                 sw_category_id = 1, sw_developer = ''Free'', sw_downloads = 0,
                 sw_rating_avg = Some 0, sw_image_url = None, sw_created_at = 0\<rparr>],
             cart :=
               [\<lparr>cart_id = 1, cart_user_id = 1, cart_total_price = 0, cart_created_at = 0,
                 cart_updated_at = 3\<rparr>,
                \<lparr>cart_id = 2, cart_user_id = 2, cart_total_price = 0, cart_created_at = 0,
                 cart_updated_at = 0\<rparr>],
             purchase_history :=
               [\<lparr>ph_id = 1, ph_user_id = 1, ph_total_price = 110,
                 ph_payment_method = Some ''card'', ph_status = ''completed'',
                 ph_purchased_at = 3\<rparr>],
             purchase_items :=
               [\<lparr>pi_id = 1, pi_purchase_id = 1, pi_software_id = 1,
                 pi_software_name = ''Photoshop'', pi_developer = ''Adobe'', pi_quantity = 1,
                 pi_price_at_purchase = 50\<rparr>,
                \<lparr>pi_id = 2, pi_purchase_id = 1, pi_software_id = 2,
                 pi_software_name = ''Figma'', pi_developer = ''Figma'', pi_quantity = 2,
                 pi_price_at_purchase = 30\<rparr>],
             seq_cart_items := 2, seq_purchase_history := 1, seq_purchase_items := 2\<rparr>"

definition demo_review_db :: db where
  "demo_review_db =
     demo_bought_db\<lparr>software :=
               [\<lparr>sw_id = 1, sw_name = ''Photoshop'', sw_description = None, sw_price = 50,
                 sw_category_id = 1, sw_developer = ''Adobe'', sw_downloads = 1,
                 sw_rating_avg = Some 3, sw_image_url = None, sw_created_at = 0\<rparr>,
                \<lparr>sw_id = 2, sw_name = ''Figma'', sw_description = None, sw_price = 30,
                 sw_category_id = 1, sw_developer = ''Figma'', sw_downloads = 2,
                 sw_rating_avg = Some 0, sw_image_url = None, sw_created_at = 0\<rparr>,
                \<lparr>sw_id = 3, sw_name = ''Viewer'', sw_description = None, sw_price = 0,
                 sw_category_id = 1, sw_developer = ''Free'', sw_downloads = 0,
                 sw_rating_avg = Some 0, sw_image_url = None, sw_created_at = 0\<rparr>],
             reviews :=
               [\<lparr>rv_id = 1, rv_user_id = 1, rv_software_id = 1, rv_rating = 3,
                 rv_comment = Some ''fine'', rv_created_at = 5\<rparr>],
             seq_reviews := 1\<rparr>"

definition demo_free_db :: db where
  "demo_free_db =
     demo_db\<lparr>cart_items :=
               [\<lparr>ci_id = 1, ci_cart_id = 1, ci_software_id = 3, ci_quantity = 1,
                 ci_price_at_add = 0, ci_added_at = 1\<rparr>],
             cart :=
               [\<lparr>cart_id = 1, cart_user_id = 1, cart_total_price = 0, cart_created_at = 0,
                 cart_updated_at = 1\<rparr>,
                \<lparr>cart_id = 2, cart_user_id = 2, cart_total_price = 0, cart_created_at = 0,
                 cart_updated_at = 0\<rparr>],
             seq_cart_items := 1\<rparr>"

definition demo_dangling_db :: db where
  "demo_dangling_db =
     demo_cart_db\<lparr>software :=
               [\<lparr>sw_id = 1, sw_name = ''Photoshop'', sw_description = None, sw_price = 50,
                 sw_category_id = 1, sw_developer = ''Adobe'', sw_downloads = 0,
                 sw_rating_avg = Some 0, sw_image_url = None, sw_created_at = 0\<rparr>,
                \<lparr>sw_id = 3, sw_name = ''Viewer'', sw_description = None, sw_price = 0,
                 sw_category_id = 1, sw_developer = ''Free'', sw_downloads = 0,
                 sw_rating_avg = Some 0, sw_image_url = None, sw_created_at = 0\<rparr>]\<rparr>"

text \<open>
  The shop in which three users have reviewed Photoshop with 4, 5 and 3 stars.
\<close>

definition demo_rated_db :: db where
  "demo_rated_db =
     demo_db\<lparr>software :=
               [\<lparr>sw_id = 1, sw_name = ''Photoshop'', sw_description = None, sw_price = 50,
                 sw_category_id = 1, sw_developer = ''Adobe'', sw_downloads = 0,
                 sw_rating_avg = Some 4, sw_image_url = None, sw_created_at = 0\<rparr>,
                \<lparr>sw_id = 2, sw_name = ''Figma'', sw_description = None, sw_price = 30,
                 sw_category_id = 1, sw_developer = ''Figma'', sw_downloads = 0,
                 sw_rating_avg = Some 0, sw_image_url = None, sw_created_at = 0\<rparr>,
                \<lparr>sw_id = 3, sw_name = ''Viewer'', sw_description = None, sw_price = 0,
                 sw_category_id = 1, sw_developer = ''Free'', sw_downloads = 0,
                 sw_rating_avg = Some 0, sw_image_url = None, sw_created_at = 0\<rparr>],
             reviews :=
               [\<lparr>rv_id = 1, rv_user_id = 1, rv_software_id = 1, rv_rating = 4,
                 rv_comment = Some ''good'', rv_created_at = 1\<rparr>,
                \<lparr>rv_id = 2, rv_user_id = 2, rv_software_id = 1, rv_rating = 5,
                 rv_comment = Some ''great'', rv_created_at = 2\<rparr>,
                \<lparr>rv_id = 3, rv_user_id = 3, rv_software_id = 1, rv_rating = 3,
                 rv_comment = Some ''fine'', rv_created_at = 3\<rparr>],
             seq_reviews := 3\<rparr>"

text \<open>Cart operations to run on it, each with its time.\<close>

definition demo_ops :: "(timestamp \<times> cart_op) list" where
  "demo_ops =
     [(1, AddToCart 1 1 1), (2, AddToCart 1 2 2), (3, AddToCart 1 1 1),
      (4, UpdateQuantity 1 3), (5, RemoveFromCart 2), (6, UpdateQuantity 1 0)]"

section \<open>Properties of the cart\<close>

lemmas cart_defs = add_to_cart_def update_cart_item_quantity_def remove_from_cart_def
  update_cart_total_def set_quantity_def cart_sum_def cart_lines_def line_price_def
  autoincrement_def in_int64_def Let_def

lemmas checkout_defs = create_purchase_def insert_purchase_def empty_cart_def
  checkout_rows_def cart_index_lines_def cart_lines_def autoincrement_def Let_def

lemmas review_defs = add_or_update_review_def add_review_def update_review_def
  delete_review_def set_rating_avg_def avg_rating_def or_zero_def software_reviews_def
  set_column_def set_nullable_def autoincrement_def Let_def

lemmas demo_defs = demo_db_def demo_cart_db_def demo_bought_db_def demo_review_db_def
  demo_free_db_def demo_dangling_db_def demo_rated_db_def

lemma find_None_list_ex: "find P xs = None \<longleftrightarrow> \<not> list_ex P xs"
  by (auto simp add: find_None_iff list_ex_iff)

lemma find_pk:
  assumes "distinct (map f xs)" "find (\<lambda>i. f i = k) xs = Some x" "y \<in> set xs" "f y = k"
  shows "y = x"
proof -
  have "x \<in> set xs" "f x = k" using assms(2) by (auto simp: find_Some_iff)
  then show ?thesis using assms(1,3,4) by (metis distinct_map inj_onD)
qed

lemma autoincrement_fresh: "i \<in> set ids \<Longrightarrow> i < autoincrement seq ids"
proof -
  have "\<And>a. a \<le> fold max ids a \<and> (\<forall>i\<in>set ids. i \<le> fold max ids a)"
  proof (induction ids)
    case Nil
    show ?case by simp
  next
    case (Cons x xs)
    have "max x a \<le> fold max xs (max x a)" using Cons.IH by blast
    then show ?case using Cons.IH[of "max x a"] by auto
  qed
  then show "i \<in> set ids \<Longrightarrow> i < autoincrement seq ids"
    unfolding autoincrement_def by fastforce
qed

lemma autoincrement_notin: "autoincrement seq ids \<notin> set ids"
  using autoincrement_fresh[of "autoincrement seq ids" ids seq] by blast

lemma update_cart_total_Inr:
  assumes "update_cart_total cid now s = Inr s'"
  shows "cart_items s' = cart_items s"
    and "cart s' = map (\<lambda>c. if cart_id c = cid
                             then c\<lparr>cart_total_price := cart_sum cid s, cart_updated_at := now\<rparr>
                             else c) (cart s)"
  using assms by (auto simp: update_cart_total_def Let_def split: if_splits)

text \<open>
  Recomputing the total of cart \<open>cid\<close> restores the invariant when the lines of every
  other cart are the ones of a database \<open>s0\<close> in which it held.
\<close>

lemma update_cart_total_ok:
  assumes ok: "cart_total_ok s0"
    and others: "\<And>c. c \<noteq> cid \<Longrightarrow> cart_lines c s = cart_lines c s0"
    and carts: "cart s = cart s0"
    and upd: "update_cart_total cid now s = Inr s'"
  shows "cart_total_ok s'"
proof -
  have items: "cart_items s' = cart_items s"
    and c': "cart s' = map (\<lambda>c. if cart_id c = cid
                                 then c\<lparr>cart_total_price := cart_sum cid s, cart_updated_at := now\<rparr>
                                 else c) (cart s0)"
    using update_cart_total_Inr[OF upd] carts by simp_all
  have sum': "\<And>c. cart_sum c s' = cart_sum c s"
    by (simp add: cart_sum_def cart_lines_def items)
  have "\<And>c. c \<in> set (cart s0) \<Longrightarrow> cart_id c \<noteq> cid \<Longrightarrow>
            cart_total_price c = cart_sum (cart_id c) s"
    using ok others by (simp add: cart_total_ok_def list_all_iff cart_sum_def)
  then show ?thesis
    unfolding cart_total_ok_def list_all_iff c' by (auto simp: sum')
qed

lemma set_quantity_other_lines:
  assumes pk: "cart_items_pk s" and f: "find (\<lambda>i. ci_id i = k) (cart_items s) = Some x"
    and ne: "c \<noteq> ci_cart_id x"
  shows "cart_lines c (set_quantity k q s) = cart_lines c s"
proof -
  have *: "\<And>i. i \<in> set (cart_items s) \<Longrightarrow> ci_id i = k \<Longrightarrow> ci_cart_id i \<noteq> c"
    using find_pk[OF pk[unfolded cart_items_pk_def] f] ne by blast
  have "filter (\<lambda>i. ci_cart_id i = c)
          (map (\<lambda>i. if ci_id i = k then i\<lparr>ci_quantity := q\<rparr> else i) xs)
        = filter (\<lambda>i. ci_cart_id i = c) xs"
    if "\<And>i. i \<in> set xs \<Longrightarrow> ci_id i = k \<Longrightarrow> ci_cart_id i \<noteq> c" for xs
    using that by (induction xs) auto
  from this[OF *] show ?thesis by (simp add: cart_lines_def set_quantity_def)
qed

lemma delete_other_lines:
  assumes pk: "cart_items_pk s" and f: "find (\<lambda>i. ci_id i = k) (cart_items s) = Some x"
    and ne: "c \<noteq> ci_cart_id x"
  shows "cart_lines c (s\<lparr>cart_items := filter (\<lambda>i. ci_id i \<noteq> k) (cart_items s)\<rparr>)
         = cart_lines c s"
proof -
  have *: "\<And>i. i \<in> set (cart_items s) \<Longrightarrow> ci_id i = k \<Longrightarrow> ci_cart_id i \<noteq> c"
    using find_pk[OF pk[unfolded cart_items_pk_def] f] ne by blast
  have "filter (\<lambda>i. ci_cart_id i = c) (filter (\<lambda>i. ci_id i \<noteq> k) xs)
        = filter (\<lambda>i. ci_cart_id i = c) xs"
    if "\<And>i. i \<in> set xs \<Longrightarrow> ci_id i = k \<Longrightarrow> ci_cart_id i \<noteq> c" for xs
    using that by (induction xs) auto
  from this[OF *] show ?thesis by (simp add: cart_lines_def)
qed

lemma set_quantity_pk: "cart_items_pk (set_quantity k q s) = cart_items_pk s"
proof -
  have "map ci_id (cart_items (set_quantity k q s)) = map ci_id (cart_items s)"
    by (auto simp: set_quantity_def)
  then show ?thesis by (simp only: cart_items_pk_def)
qed

lemma update_cart_total_pk:
  "update_cart_total cid now s = Inr s' \<Longrightarrow> cart_items_pk s' = cart_items_pk s"
  by (auto simp: update_cart_total_def Let_def cart_items_pk_def split: if_splits)

lemma remove_from_cart_ok:
  assumes "cart_items_pk s" "cart_total_ok s" "remove_from_cart item_id now s = Inr s'"
  shows "cart_items_pk s' \<and> cart_total_ok s'"
proof -
  from assms(3) obtain x where f: "find (\<lambda>i. ci_id i = item_id) (cart_items s) = Some x"
    and u: "update_cart_total (ci_cart_id x) now
              (s\<lparr>cart_items := filter (\<lambda>i. ci_id i \<noteq> item_id) (cart_items s)\<rparr>) = Inr s'"
    by (auto simp: remove_from_cart_def Let_def split: option.splits if_splits)
  have "cart_total_ok s'"
    using update_cart_total_ok[OF assms(2) delete_other_lines[OF assms(1) f] _ u] by simp
  moreover have "cart_items_pk s'"
    using assms(1) update_cart_total_pk[OF u]
    by (simp add: cart_items_pk_def distinct_map_filter)
  ultimately show ?thesis by simp
qed

lemma update_cart_item_quantity_ok:
  assumes "cart_items_pk s" "cart_total_ok s"
    and "update_cart_item_quantity item_id q now s = Inr s'"
  shows "cart_items_pk s' \<and> cart_total_ok s'"
proof (cases "q \<le> 0")
  case True
  then have "remove_from_cart item_id now s = Inr s'"
    using assms(3) by (simp add: update_cart_item_quantity_def)
  then show ?thesis by (rule remove_from_cart_ok[OF assms(1,2)])
next
  case False
  with assms(3) obtain x where f: "find (\<lambda>i. ci_id i = item_id) (cart_items s) = Some x"
    and u: "update_cart_total (ci_cart_id x) now (set_quantity item_id q s) = Inr s'"
    by (auto simp: update_cart_item_quantity_def Let_def split: option.splits if_splits)
  have "cart s = cart (set_quantity item_id q s)" by (simp add: set_quantity_def)
  then have "cart_total_ok s'"
    using update_cart_total_ok[OF assms(2) set_quantity_other_lines[OF assms(1) f] _ u]
    by simp
  moreover have "cart_items_pk s'"
    using assms(1) update_cart_total_pk[OF u] by (simp add: set_quantity_pk)
  ultimately show ?thesis by simp
qed

lemma add_to_cart_ok:
  assumes "cart_items_pk s" "cart_total_ok s"
    and "add_to_cart user_id software_id q now s = Inr (item_id, s')"
  shows "cart_items_pk s' \<and> cart_total_ok s'"
proof -
  from assms(3) obtain c where c: "find (\<lambda>c. cart_user_id c = user_id) (cart s) = Some c"
    by (auto simp: add_to_cart_def split: option.splits if_splits)
  let ?cid = "cart_id c"
  show ?thesis
  proof (cases "find (\<lambda>i. ci_cart_id i = ?cid \<and> ci_software_id i = software_id)
                     (cart_items s)")
    case None
    let ?id = "autoincrement (seq_cart_items s) (map ci_id (cart_items s))"
    let ?s1 = "\<lambda>p::real. s\<lparr>cart_items := cart_items s @
                              [\<lparr>ci_id = ?id, ci_cart_id = ?cid,
                                ci_software_id = software_id, ci_quantity = q,
                                ci_price_at_add = p, ci_added_at = now\<rparr>],
                            seq_cart_items := ?id\<rparr>"
    from assms(3) c None have "\<exists>p. update_cart_total ?cid now (?s1 p) = Inr s'"
      by (auto simp: add_to_cart_def Let_def split: option.splits if_splits sum.splits)
    then obtain p where u: "update_cart_total ?cid now (?s1 p) = Inr s'" by blast
    have "cart_total_ok s'"
      by (rule update_cart_total_ok[OF assms(2) _ _ u]) (simp_all add: cart_lines_def)
    moreover have "?id \<notin> ci_id ` set (cart_items s)"
      using autoincrement_notin[of "seq_cart_items s" "map ci_id (cart_items s)"] by simp
    then have "cart_items_pk s'"
      using assms(1) update_cart_total_pk[OF u] by (simp add: cart_items_pk_def)
    ultimately show ?thesis by simp
  next
    case (Some x)
    from assms(3) c Some
    have u: "update_cart_total ?cid now
               (set_quantity (ci_id x) (ci_quantity x + q) s) = Inr s'"
      by (auto simp: add_to_cart_def Let_def split: option.splits if_splits sum.splits)
    have x: "x \<in> set (cart_items s)" "ci_cart_id x = ?cid"
      using Some by (auto simp: find_Some_iff)
    have f: "find (\<lambda>i. ci_id i = ci_id x) (cart_items s) = Some y \<Longrightarrow> y = x" for y
      using find_pk[OF assms(1)[unfolded cart_items_pk_def], of "ci_id x" y x] x by simp
    obtain y where fy: "find (\<lambda>i. ci_id i = ci_id x) (cart_items s) = Some y"
      using x(1) by (cases "find (\<lambda>i. ci_id i = ci_id x) (cart_items s)")
                    (auto simp: find_None_iff)
    with f have fx: "find (\<lambda>i. ci_id i = ci_id x) (cart_items s) = Some x" by simp
    have "cart s = cart (set_quantity (ci_id x) (ci_quantity x + q) s)"
      by (simp add: set_quantity_def)
    then have "cart_total_ok s'"
      using update_cart_total_ok[OF assms(2) set_quantity_other_lines[OF assms(1) fx] _ u] x(2)
      by simp
    moreover have "cart_items_pk s'"
      using assms(1) update_cart_total_pk[OF u] by (simp add: set_quantity_pk)
    ultimately show ?thesis by simp
  qed
qed

lemma cart_sum_no_lines: "cart_lines cid s = [] \<Longrightarrow> cart_sum cid s = 0"
  by (simp add: cart_sum_def)

lemma apply_cart_op_ok:
  assumes "cart_items_pk s" "cart_total_ok s" "apply_cart_op now op s = Inr s'"
  shows "cart_items_pk s' \<and> cart_total_ok s'"
proof (cases op)
  case (AddToCart user_id software_id quantity)
  with assms(3) obtain item_id
    where "add_to_cart user_id software_id quantity now s = Inr (item_id, s')"
    by (auto split: sum.splits)
  then show ?thesis by (rule add_to_cart_ok[OF assms(1,2)])
next
  case (UpdateQuantity item_id quantity)
  with assms(3) show ?thesis using update_cart_item_quantity_ok[OF assms(1,2)] by simp
next
  case (RemoveFromCart item_id)
  with assms(3) show ?thesis using remove_from_cart_ok[OF assms(1,2)] by simp
qed

text \<open>
  C1. Take a database in which every cart's \<^verbatim>\<open>total_price\<close> is the sum over its
  lines of \<^verbatim>\<open>quantity * price_at_add\<close> (as it is for the carts \<^verbatim>\<open>add_user\<close>
  creates, with total 0 and no lines; the sum over no lines is 0) and any sequence of
  \<^verbatim>\<open>add_to_cart\<close>, \<^verbatim>\<open>update_cart_item_quantity\<close> and \<^verbatim>\<open>remove_from_cart\<close>
  calls that all succeed. Then there is a database after each call, and in each of
  them every cart's \<^verbatim>\<open>total_price\<close> is again the sum over its lines.
\<close>

theorem cart_total_invariant:
  assumes "cart_items_pk s" and "cart_total_ok s" and "run_cart_ops ops s = Some tr"
  shows "length tr = length ops \<and> list_all cart_total_ok tr"
  using assms
proof (induction ops arbitrary: s tr)
  case Nil
  then show ?case by simp
next
  case (Cons a ops)
  obtain now op where a: "a = (now, op)" by (cases a)
  from Cons.prems(3) a obtain s' tr' where s': "apply_cart_op now op s = Inr s'"
    and tr': "run_cart_ops ops s' = Some tr'" and tr: "tr = s' # tr'"
    by (auto split: sum.splits option.splits)
  have ok: "cart_items_pk s' \<and> cart_total_ok s'"
    by (rule apply_cart_op_ok[OF Cons.prems(1,2) s'])
  with Cons.IH[OF _ _ tr'] show ?case by (simp add: tr)
qed

lemma demo_ops_totals:
  "map_option (map (\<lambda>s. map cart_total_price (cart s))) (run_cart_ops demo_ops demo_db)
   = Some [[50, 0], [110, 0], [160, 0], [210, 0], [150, 0], [0, 0]]"
  by (simp add: demo_ops_def demo_db_def cart_defs)

theorem cart_total_invariant_witness:
  "cart_items_pk demo_db \<and> cart_total_ok demo_db \<and>
   (\<exists>tr. run_cart_ops demo_ops demo_db = Some tr \<and> length tr = 6 \<and>
         list_all cart_total_ok tr \<and>
         map (\<lambda>s. map cart_total_price (cart s)) tr
           = [[50, 0], [110, 0], [160, 0], [210, 0], [150, 0], [0, 0]])"
proof -
  have pk: "cart_items_pk demo_db" by (simp add: cart_items_pk_def demo_db_def)
  have ok: "cart_total_ok demo_db"
    by (simp add: cart_total_ok_def cart_sum_def cart_lines_def demo_db_def)
  from demo_ops_totals obtain tr where run: "run_cart_ops demo_ops demo_db = Some tr"
    and totals: "map (\<lambda>s. map cart_total_price (cart s)) tr
                   = [[50, 0], [110, 0], [160, 0], [210, 0], [150, 0], [0, 0]]"
    by (auto simp: map_option_case split: option.splits)
  have "length demo_ops = 6" by (simp add: demo_ops_def)
  with cart_total_invariant[OF pk ok run] pk ok run totals show ?thesis by simp
qed

text \<open>
  C10, as amended. When no cart line has the id \<open>item_id\<close> and \<open>item_id\<close> is
  an integer SQLite can bind (signed 64-bit),
  \<^verbatim>\<open>update_cart_item_quantity(item_id, quantity)\<close> with a positive quantity raises
  the \<open>TypeError\<close> of subscripting the row that was not found, not a not-found
  \<^verbatim>\<open>ValueError\<close>, and with a quantity of zero or less it raises the
  \<^verbatim>\<open>ValueError\<close> "Cart item not found" of \<^verbatim>\<open>remove_from_cart\<close>. An
  \<open>item_id\<close> outside that range raises \<open>OverflowError\<close> in both cases, when the
  first query binds it, before any row is looked up.
\<close>

theorem update_cart_item_quantity_missing_line:
  assumes "\<not> list_ex (\<lambda>i. ci_id i = item_id) (cart_items s)"
  shows "update_cart_item_quantity item_id quantity now s =
           (if \<not> in_int64 item_id then Inl OverflowError
            else if 0 < quantity then Inl TypeError
            else Inl (ValueError (Cart_item_not_found item_id)))"
  using assms
  by (simp add: update_cart_item_quantity_def remove_from_cart_def
      find_None_list_ex[symmetric])

theorem update_cart_item_quantity_missing_line_witness:
  "\<not> list_ex (\<lambda>i. ci_id i = 7) (cart_items demo_db) \<and> in_int64 7 \<and>
   update_cart_item_quantity 7 2 1 demo_db = Inl TypeError \<and>
   update_cart_item_quantity 7 0 1 demo_db = Inl (ValueError (Cart_item_not_found 7)) \<and>
   update_cart_item_quantity 7 (2 ^ 63) 1 demo_db = Inl TypeError \<and>
   \<not> in_int64 (2 ^ 63) \<and>
   update_cart_item_quantity (2 ^ 63) 2 1 demo_db = Inl OverflowError"
proof -
  have h: "\<not> list_ex (\<lambda>i. ci_id i = 7) (cart_items demo_db)" by (simp add: demo_db_def)
  have h': "\<not> list_ex (\<lambda>i. ci_id i = 2 ^ 63) (cart_items demo_db)"
    by (simp add: demo_db_def)
  have r: "in_int64 7" "\<not> in_int64 (2 ^ 63)" by (simp_all add: in_int64_def)
  show ?thesis
    using h r update_cart_item_quantity_missing_line[OF h, of 2 1]
      update_cart_item_quantity_missing_line[OF h, of 0 1]
      update_cart_item_quantity_missing_line[OF h, of "2 ^ 63" 1]
      update_cart_item_quantity_missing_line[OF h', of 2 1]
    by simp
qed

text \<open>
  The claim as it stands, for every \<open>item_id\<close>, fails at the first integer that does
  not fit: no cart line has the id \<open>2 ^ 63\<close>, and the call raises
  \<open>OverflowError\<close> whatever the quantity, neither the \<open>TypeError\<close> nor the
  \<^verbatim>\<open>ValueError\<close>.
\<close>

theorem update_cart_item_quantity_overflow_counterexample:
  "\<not> list_ex (\<lambda>i. ci_id i = 9223372036854775808) (cart_items demo_db) \<and>
   update_cart_item_quantity 9223372036854775808 1 1 demo_db = Inl OverflowError \<and>
   update_cart_item_quantity 9223372036854775808 0 1 demo_db = Inl OverflowError \<and>
   remove_from_cart 9223372036854775808 1 demo_db = Inl OverflowError"
  by (simp add: demo_db_def update_cart_item_quantity_def remove_from_cart_def in_int64_def)

section \<open>The states of the small shop\<close>

text \<open>Each of them is what the operations make of the shop before it.\<close>

lemma demo_cart_db_reached:
  "run_cart_ops [(1, AddToCart 1 1 1), (2, AddToCart 1 2 2)] demo_db \<noteq> None \<and>
   map_option last (run_cart_ops [(1, AddToCart 1 1 1), (2, AddToCart 1 2 2)] demo_db)
     = Some demo_cart_db"
  by (simp add: demo_defs cart_defs)

lemma demo_bought_db_reached:
  "create_purchase 1 (Some ''card'') 3 demo_cart_db = Inr (1, demo_bought_db)"
  by (simp add: demo_defs checkout_defs)

text \<open>
  Lines added in the order Figma, Photoshop are copied in the order Photoshop, Figma.
\<close>

lemma checkout_copies_by_item_id:
  "(case map_option last (run_cart_ops [(1, AddToCart 1 2 2), (2, AddToCart 1 1 1)] demo_db) of
      None \<Rightarrow> False
    | Some s \<Rightarrow>
        map ci_software_id (cart_lines 1 s) = [2, 1] \<and>
        map_sum id (map pi_software_id \<circ> purchase_items \<circ> snd)
          (create_purchase 1 None 3 s) = Inr [1, 2])"
  by (simp add: demo_defs cart_defs checkout_defs)

lemma demo_review_db_reached:
  "add_software_review 1 1 (Some 3) ''fine'' 5 demo_bought_db
     = Inr (Review_saved, demo_review_db)"
  by (simp add: demo_defs add_software_review_def user_has_purchased_software_def
      review_defs)

lemma demo_free_db_reached: "add_to_cart 1 3 1 1 demo_db = Inr (1, demo_free_db)"
  by (simp add: demo_defs cart_defs)

lemma demo_dangling_db_reached: "delete_software 2 demo_cart_db = Inr demo_dangling_db"
  by (simp add: demo_defs delete_software_def sql_delete_software_def get_db_connection_def)

section \<open>Properties of checkout\<close>

lemma distinct_map_eq:
  assumes "distinct (map f xs)" "x \<in> set xs" "y \<in> set xs" "f x = f y"
  shows "x = y"
  using assms by (metis distinct_map inj_onD)

lemma copy_cart_items_Inl: "copy_cart_items pid items s = Inl e \<Longrightarrow> e = IntegrityError"
  by (induction pid items s rule: copy_cart_items.induct) (auto simp: Let_def split: if_splits)

lemma copy_cart_items_frame:
  "copy_cart_items pid items s = Inr s' \<Longrightarrow>
     cart s' = cart s \<and> cart_items s' = cart_items s \<and>
     purchase_history s' = purchase_history s \<and> reviews s' = reviews s \<and>
     categories s' = categories s"
  by (induction pid items s rule: copy_cart_items.induct)
     (auto simp: Let_def split: if_splits)

lemma copy_cart_items_lines:
  "copy_cart_items pid items s = Inr s' \<Longrightarrow>
     \<exists>new. purchase_items s' = purchase_items s @ new \<and> list_all2 (row_copied pid) items new"
proof (induction pid items s rule: copy_cart_items.induct)
  case (1 purchase_id s)
  then show ?case by simp
next
  case (2 purchase_id item items s)
  let ?id = "autoincrement (seq_purchase_items s) (map pi_id (purchase_items s))"
  let ?p = "\<lparr>pi_id = ?id, pi_purchase_id = purchase_id,
                  pi_software_id = co_software_id item, pi_software_name = co_name item,
                  pi_developer = co_developer item, pi_quantity = co_quantity item,
                  pi_price_at_purchase = co_price_at_add item\<rparr>"
  let ?s1 = "s\<lparr>purchase_items := purchase_items s @ [?p],
              seq_purchase_items := ?id,
              software := map (\<lambda>w. if sw_id w = co_software_id item
                                    then w\<lparr>sw_downloads := sw_downloads w + co_quantity item\<rparr>
                                    else w) (software s)\<rparr>"
  from "2.prems" have ok: "\<not> (co_quantity item \<le> 0 \<or> co_price_at_add item < 0)"
    and run: "copy_cart_items purchase_id items ?s1 = Inr s'"
    by (auto simp: Let_def split: if_splits)
  from "2.IH"[OF ok refl run] obtain new
    where new: "purchase_items s' = purchase_items ?s1 @ new"
      and all: "list_all2 (row_copied purchase_id) items new" by blast
  have "purchase_items s' = purchase_items s @ (?p # new)" using new by simp
  moreover have "list_all2 (row_copied purchase_id) (item # items) (?p # new)"
    using all by (simp add: row_copied_def)
  ultimately show ?case by blast
qed

lemma copy_cart_items_downloads:
  "copy_cart_items pid items s = Inr s' \<Longrightarrow>
     software s' = map (\<lambda>w. w\<lparr>sw_downloads := sw_downloads w + rows_quantity (sw_id w) items\<rparr>)
                       (software s)"
proof (induction pid items s rule: copy_cart_items.induct)
  case (1 purchase_id s)
  then show ?case by (simp add: rows_quantity_def map_idI)
next
  case (2 purchase_id item items s)
  let ?id = "autoincrement (seq_purchase_items s) (map pi_id (purchase_items s))"
  let ?p = "\<lparr>pi_id = ?id, pi_purchase_id = purchase_id,
                  pi_software_id = co_software_id item, pi_software_name = co_name item,
                  pi_developer = co_developer item, pi_quantity = co_quantity item,
                  pi_price_at_purchase = co_price_at_add item\<rparr>"
  let ?s1 = "s\<lparr>purchase_items := purchase_items s @ [?p],
              seq_purchase_items := ?id,
              software := map (\<lambda>w. if sw_id w = co_software_id item
                                    then w\<lparr>sw_downloads := sw_downloads w + co_quantity item\<rparr>
                                    else w) (software s)\<rparr>"
  from "2.prems" have ok: "\<not> (co_quantity item \<le> 0 \<or> co_price_at_add item < 0)"
    and run: "copy_cart_items purchase_id items ?s1 = Inr s'"
    by (auto simp: Let_def split: if_splits)
  from "2.IH"[OF ok refl run]
  have "software s' = map (\<lambda>w. w\<lparr>sw_downloads := sw_downloads w + rows_quantity (sw_id w) items\<rparr>)
                       (software ?s1)" .
  then show ?case by (auto simp: rows_quantity_def)
qed

lemma copy_cart_items_checked:
  "copy_cart_items pid items s = Inr s' \<Longrightarrow>
     list_all (\<lambda>it. 0 < co_quantity it \<and> 0 \<le> co_price_at_add it) items"
  by (induction pid items s rule: copy_cart_items.induct)
     (auto simp: Let_def split: if_splits)

lemma copy_cart_items_succeeds:
  "list_all (\<lambda>it. 0 < co_quantity it \<and> 0 \<le> co_price_at_add it) items \<Longrightarrow>
     \<exists>s'. copy_cart_items pid items s = Inr s'"
  by (induction items arbitrary: s) (auto simp: Let_def)

lemma distinct_filter_le1:
  assumes "distinct (map f xs)" "x \<in> set xs"
  shows "filter (\<lambda>y. f y = f x) xs = [x]"
  using assms
proof (induction xs)
  case Nil
  then show ?case by simp
next
  case (Cons a xs)
  show ?case
  proof (cases "a = x")
    case True
    have "filter (\<lambda>y. f y = f x) xs = []"
      using Cons.prems(1) True by (auto simp: filter_empty_conv image_iff)
    then show ?thesis using True by simp
  next
    case False
    then have "x \<in> set xs" using Cons.prems(2) by simp
    moreover have "f a \<noteq> f x" using Cons.prems(1) \<open>x \<in> set xs\<close> by (auto simp: image_iff)
    ultimately show ?thesis using Cons by simp
  qed
qed

lemma sum_list_map_insort_key:
  fixes g :: "'a \<Rightarrow> 'b::comm_monoid_add"
  shows "sum_list (map g (insort_key f x ys)) = g x + sum_list (map g ys)"
  by (induction ys) (auto simp: ac_simps)

lemma sum_list_map_sort_key:
  fixes g :: "'a \<Rightarrow> 'b::comm_monoid_add"
  shows "sum_list (map g (sort_key f xs)) = sum_list (map g xs)"
  by (induction xs) (auto simp: sum_list_map_insort_key)

lemma sum_index_lines:
  fixes g :: "cart_item_row \<Rightarrow> 'b::comm_monoid_add"
  shows "sum_list (map g (filter P (cart_index_lines cid s)))
     = sum_list (map g (filter P (cart_lines cid s)))"
  by (simp add: cart_index_lines_def filter_sort sum_list_map_sort_key)

lemma checkout_rows_fetched:
  assumes pk: "software_pk s" and fk: "cart_items_fk s"
  shows "list_all2 (line_fetched s) (cart_index_lines cid s) (checkout_rows cid s)"
proof -
  have one: "\<exists>w. w \<in> set (software s) \<and> sw_id w = ci_software_id i \<and>
                 filter (\<lambda>w. sw_id w = ci_software_id i) (software s) = [w]"
    if "i \<in> set (cart_items s)" for i
  proof -
    from fk that obtain w where w: "w \<in> set (software s)" "sw_id w = ci_software_id i"
      by (auto simp: cart_items_fk_def list_all_iff list_ex_iff)
    from distinct_filter_le1[OF pk[unfolded software_pk_def] w(1)] w show ?thesis by auto
  qed
  have "list_all2 (line_fetched s) ls
          (concat (map (\<lambda>i. map (\<lambda>w. \<lparr>co_software_id = ci_software_id i,
                                  co_quantity = ci_quantity i,
                                  co_price_at_add = ci_price_at_add i,
                                  co_name = sw_name w, co_developer = sw_developer w\<rparr>)
                           (filter (\<lambda>w. sw_id w = ci_software_id i) (software s))) ls))"
    if "set ls \<subseteq> set (cart_items s)" for ls
    using that
  proof (induction ls)
    case Nil
    then show ?case by simp
  next
    case (Cons i ls)
    from one[of i] Cons.prems obtain w where w: "w \<in> set (software s)"
      "sw_id w = ci_software_id i"
      "filter (\<lambda>w. sw_id w = ci_software_id i) (software s) = [w]" by auto
    have "list_ex (\<lambda>w'. sw_id w' = ci_software_id i \<and> sw_name w' = sw_name w \<and>
                    sw_developer w' = sw_developer w) (software s)"
      using w(1,2) by (auto simp: list_ex_iff)
    then show ?case using Cons w(3) by (simp add: line_fetched_def)
  qed
  moreover have "set (cart_index_lines cid s) \<subseteq> set (cart_items s)"
    by (auto simp: cart_index_lines_def cart_lines_def)
  ultimately show ?thesis by (simp add: checkout_rows_def)
qed

lemma fetched_copied:
  "line_fetched s i it \<Longrightarrow> row_copied pid it p \<Longrightarrow> line_copied s pid i p"
  by (simp add: line_fetched_def row_copied_def line_copied_def)

lemma rows_quantity_lines:
  "list_all2 (line_fetched s) ls rows \<Longrightarrow>
     rows_quantity k rows = sum_list (map ci_quantity (filter (\<lambda>i. ci_software_id i = k) ls))"
  by (induction rule: list_all2_induct) (auto simp: rows_quantity_def line_fetched_def)

lemma sum_quantity_unique:
  "distinct (map ci_software_id ls) \<Longrightarrow>
     sum_list (map ci_quantity (filter (\<lambda>i. ci_software_id i = k) ls)) = line_quantity k ls"
proof (induction ls)
  case Nil
  then show ?case by (simp add: line_quantity_def)
next
  case (Cons i ls)
  show ?case
  proof (cases "ci_software_id i = k")
    case True
    then have "filter (\<lambda>i. ci_software_id i = k) ls = []"
      using Cons.prems by (force simp: filter_empty_conv image_iff)
    then show ?thesis using True by (simp add: line_quantity_def)
  next
    case False
    then show ?thesis using Cons by (simp add: line_quantity_def)
  qed
qed

lemma cart_lines_unique:
  assumes "cart_items_unique s"
  shows "distinct (map ci_software_id (cart_lines cid s))"
proof -
  have "distinct (map (\<lambda>i. (ci_cart_id i, ci_software_id i)) (cart_lines cid s))"
    using assms by (simp add: cart_items_unique_def cart_lines_def distinct_map_filter)
  then have d: "distinct (cart_lines cid s)"
    and inj: "inj_on (\<lambda>i. (ci_cart_id i, ci_software_id i)) (set (cart_lines cid s))"
    by (simp_all add: distinct_map)
  have "inj_on ci_software_id (set (cart_lines cid s))"
  proof (rule inj_onI)
    fix x y assume "x \<in> set (cart_lines cid s)" "y \<in> set (cart_lines cid s)"
      "ci_software_id x = ci_software_id y"
    moreover from this have "ci_cart_id x = ci_cart_id y" by (simp add: cart_lines_def)
    ultimately show "x = y" using inj by (auto dest: inj_onD)
  qed
  with d show ?thesis by (simp add: distinct_map)
qed

lemma create_purchase_Inr:
  assumes "create_purchase user_id payment_method now s = Inr (pid, s')"
    and "find (\<lambda>c. cart_user_id c = user_id) (cart s) = Some c"
  shows "cart_total_price c \<noteq> 0"
    and "\<exists>s1 s2. insert_purchase user_id (cart_total_price c) payment_method now s = (pid, s1) \<and>
           copy_cart_items pid (checkout_rows (cart_id c) s1) s1 = Inr s2 \<and>
           s' = empty_cart (cart_id c) now s2"
  using assms
  by (auto simp: create_purchase_def Let_def split: if_splits sum.splits prod.splits)

lemma insert_purchase_eq:
  assumes "insert_purchase user_id tp payment_method now s = (pid, s1)"
  shows "pid = autoincrement (seq_purchase_history s) (map ph_id (purchase_history s))"
    and "purchase_history s1 = purchase_history s @
           [\<lparr>ph_id = pid, ph_user_id = user_id, ph_total_price = tp,
             ph_payment_method = payment_method, ph_status = ''completed'',
             ph_purchased_at = now\<rparr>]"
    and "purchase_items s1 = purchase_items s" and "software s1 = software s"
    and "cart s1 = cart s" and "cart_items s1 = cart_items s"
  using assms by (auto simp: insert_purchase_def Let_def)

lemma sum_lines_zero:
  assumes "list_all (\<lambda>i. 0 < ci_quantity i \<and> 0 \<le> ci_price_at_add i) xs"
  shows "(sum_list (map line_price xs) = 0) = list_all (\<lambda>i. ci_price_at_add i = 0) xs"
proof -
  have nn: "\<And>x. x \<in> set (map line_price xs) \<Longrightarrow> 0 \<le> x"
    using assms by (auto simp: list_all_iff line_price_def)
  have "(sum_list (map line_price xs) = 0) = (\<forall>x\<in>set (map line_price xs). x = 0)"
    using sum_list_nonneg_eq_0_iff[of "map line_price xs"] nn by blast
  also have "\<dots> = list_all (\<lambda>i. ci_price_at_add i = 0) xs"
    using assms by (fastforce simp: list_all_iff line_price_def)
  finally show ?thesis .
qed


lemma empty_cart_eq:
  "purchase_history (empty_cart cid now s) = purchase_history s"
  "purchase_items (empty_cart cid now s) = purchase_items s"
  "software (empty_cart cid now s) = software s"
  "cart_items (empty_cart cid now s) = filter (\<lambda>i. ci_cart_id i \<noteq> cid) (cart_items s)"
  "cart (empty_cart cid now s) = map (\<lambda>c. if cart_id c = cid
                         then c\<lparr>cart_total_price := 0, cart_updated_at := now\<rparr>
                         else c) (cart s)"
  "cart_lines cid (empty_cart cid now s) = []"
  by (simp_all add: empty_cart_def cart_lines_def)

text \<open>What a successful checkout has done, whatever the state of the catalog.\<close>

lemma create_purchase_result:
  assumes run: "create_purchase user_id payment_method now s = Inr (pid, s')"
    and c: "find (\<lambda>c. cart_user_id c = user_id) (cart s) = Some c"
  shows "pid = autoincrement (seq_purchase_history s) (map ph_id (purchase_history s))"
    and "purchase_history s' = purchase_history s @
           [\<lparr>ph_id = pid, ph_user_id = user_id, ph_total_price = cart_total_price c,
             ph_payment_method = payment_method, ph_status = ''completed'',
             ph_purchased_at = now\<rparr>]"
    and "\<exists>new. purchase_items s' = purchase_items s @ new \<and>
               list_all2 (row_copied pid) (checkout_rows (cart_id c) s) new"
    and "software s' = map (\<lambda>w. w\<lparr>sw_downloads := sw_downloads w +
                                      rows_quantity (sw_id w) (checkout_rows (cart_id c) s)\<rparr>)
                           (software s)"
    and "cart_items s' = filter (\<lambda>i. ci_cart_id i \<noteq> cart_id c) (cart_items s)"
    and "cart s' = map (\<lambda>c'. if cart_id c' = cart_id c
                         then c'\<lparr>cart_total_price := 0, cart_updated_at := now\<rparr>
                         else c') (cart s)"
proof -
  from create_purchase_Inr(2)[OF run c] obtain s1 s2
    where ins: "insert_purchase user_id (cart_total_price c) payment_method now s = (pid, s1)"
      and cp: "copy_cart_items pid (checkout_rows (cart_id c) s1) s1 = Inr s2"
      and s': "s' = empty_cart (cart_id c) now s2" by blast
  note i = insert_purchase_eq[OF ins]
  have rows: "checkout_rows (cart_id c) s1 = checkout_rows (cart_id c) s"
    by (simp add: checkout_rows_def cart_index_lines_def cart_lines_def i)
  note f = copy_cart_items_frame[OF cp]
  show "pid = autoincrement (seq_purchase_history s) (map ph_id (purchase_history s))"
    by (rule i(1))
  show "purchase_history s' = purchase_history s @
           [\<lparr>ph_id = pid, ph_user_id = user_id, ph_total_price = cart_total_price c,
             ph_payment_method = payment_method, ph_status = ''completed'',
             ph_purchased_at = now\<rparr>]"
    using f i(2) by (simp add: s' empty_cart_eq)
  show "\<exists>new. purchase_items s' = purchase_items s @ new \<and>
               list_all2 (row_copied pid) (checkout_rows (cart_id c) s) new"
    using copy_cart_items_lines[OF cp] by (simp add: s' empty_cart_eq rows i)
  show "software s' = map (\<lambda>w. w\<lparr>sw_downloads := sw_downloads w +
                                      rows_quantity (sw_id w) (checkout_rows (cart_id c) s)\<rparr>)
                           (software s)"
    using copy_cart_items_downloads[OF cp] by (simp add: s' empty_cart_eq rows i)
  show "cart_items s' = filter (\<lambda>i. ci_cart_id i \<noteq> cart_id c) (cart_items s)"
    using f by (simp add: s' empty_cart_eq i)
  show "cart s' = map (\<lambda>c'. if cart_id c' = cart_id c
                         then c'\<lparr>cart_total_price := 0, cart_updated_at := now\<rparr>
                         else c') (cart s)"
    using f by (simp add: s' empty_cart_eq i)
qed

lemma create_purchase_succeeds:
  assumes c: "find (\<lambda>c. cart_user_id c = user_id) (cart s) = Some c"
    and nz: "cart_total_price c \<noteq> 0"
    and cc: "cart_check s" and ic: "cart_items_check s"
  shows "\<exists>pid s'. create_purchase user_id payment_method now s = Inr (pid, s')"
proof -
  have "c \<in> set (cart s)" using c by (auto simp: find_Some_iff)
  then have nn: "\<not> cart_total_price c < 0" using cc by (auto simp: cart_check_def list_all_iff)
  obtain pid s1 where ins: "insert_purchase user_id (cart_total_price c) payment_method now s = (pid, s1)"
    by (cases "insert_purchase user_id (cart_total_price c) payment_method now s")
  note i = insert_purchase_eq[OF ins]
  have "list_all (\<lambda>it. 0 < co_quantity it \<and> 0 \<le> co_price_at_add it) (checkout_rows (cart_id c) s1)"
    using ic
    by (auto simp: checkout_rows_def cart_index_lines_def cart_lines_def cart_items_check_def
        list_all_iff i)
  from copy_cart_items_succeeds[OF this, of pid s1] obtain s2
    where "copy_cart_items pid (checkout_rows (cart_id c) s1) s1 = Inr s2" by blast
  then show ?thesis using c nz nn ins by (simp add: create_purchase_def)
qed


text \<open>
  Checkout on a sound catalog. Take a user whose cart has a total other than zero, in a
  database that meets the constraints SQLite enforces (the \<^verbatim>\<open>CHECK\<close>s of
  \<^verbatim>\<open>cart\<close> and \<^verbatim>\<open>cart_items\<close>, \<^verbatim>\<open>UNIQUE(cart_id, software_id)\<close>, the
  primary key of \<^verbatim>\<open>software\<close>) and in which every cart line's item is in the
  catalog (the foreign key of \<^verbatim>\<open>cart_items.software_id\<close>). Then
  \<^verbatim>\<open>create_purchase\<close> succeeds; it appends exactly one purchase record, under a new
  id, with the cart's total, the payment method and the status \<^verbatim>\<open>completed\<close>; it
  keeps the old purchase lines and appends one line per cart line, by ascending item
  id, with the line's item, quantity and \<^verbatim>\<open>price_at_add\<close> and the item's name and
  developer; it
  adds to every item's \<^verbatim>\<open>downloads\<close> the quantity of its line (nothing to an item
  without a line); and it leaves the cart without lines and with the total 0.
\<close>

lemma create_purchase_snapshot:
  assumes c: "find (\<lambda>c. cart_user_id c = user_id) (cart s) = Some c"
    and nz: "cart_total_price c \<noteq> 0"
    and enforced: "cart_check s" "cart_items_check s" "cart_items_unique s" "software_pk s"
    and fk: "cart_items_fk s"
  shows "case create_purchase user_id payment_method now s of
           Inl e \<Rightarrow> False
         | Inr (purchase_id, s') \<Rightarrow>
             purchase_id \<notin> set (map ph_id (purchase_history s)) \<and>
             purchase_history s' = purchase_history s @
               [\<lparr>ph_id = purchase_id, ph_user_id = user_id,
                 ph_total_price = cart_total_price c, ph_payment_method = payment_method,
                 ph_status = ''completed'', ph_purchased_at = now\<rparr>] \<and>
             take (length (purchase_items s)) (purchase_items s') = purchase_items s \<and>
             list_all2 (line_copied s purchase_id) (cart_index_lines (cart_id c) s)
               (drop (length (purchase_items s)) (purchase_items s')) \<and>
             software s' =
               map (\<lambda>w. w\<lparr>sw_downloads := sw_downloads w +
                            line_quantity (sw_id w) (cart_lines (cart_id c) s)\<rparr>) (software s) \<and>
             cart_lines (cart_id c) s' = [] \<and>
             map cart_total_price (filter (\<lambda>c'. cart_id c' = cart_id c) (cart s'))
               = map (\<lambda>c'. 0) (filter (\<lambda>c'. cart_id c' = cart_id c) (cart s)) \<and>
             find (\<lambda>c. cart_user_id c = user_id) (cart s')
               = Some (c\<lparr>cart_total_price := 0, cart_updated_at := now\<rparr>)"
proof -
  from create_purchase_succeeds[OF c nz enforced(1,2)] obtain pid s'
    where run: "create_purchase user_id payment_method now s = Inr (pid, s')" by blast
  note r = create_purchase_result[OF run c]
  let ?lines = "cart_lines (cart_id c) s"
  let ?ilines = "cart_index_lines (cart_id c) s"
  let ?rows = "checkout_rows (cart_id c) s"
  have fetched: "list_all2 (line_fetched s) ?ilines ?rows"
    by (rule checkout_rows_fetched[OF enforced(4) fk])
  from r(3) obtain new where new: "purchase_items s' = purchase_items s @ new"
    and copied: "list_all2 (row_copied pid) ?rows new" by blast
  have 1: "pid \<notin> set (map ph_id (purchase_history s))"
    unfolding r(1) by (rule autoincrement_notin)
  have 3: "take (length (purchase_items s)) (purchase_items s') = purchase_items s"
    by (simp add: new)
  have 4: "list_all2 (line_copied s pid) ?ilines
             (drop (length (purchase_items s)) (purchase_items s'))"
    using list_all2_trans[of "line_fetched s" "row_copied pid" "line_copied s pid", OF fetched_copied fetched copied]
    by (simp add: new)
  have q: "rows_quantity k ?rows = line_quantity k ?lines" for k
    using rows_quantity_lines[OF fetched, of k]
      sum_quantity_unique[OF cart_lines_unique[OF enforced(3)], of k "cart_id c"]
    by (simp add: sum_index_lines)
  have 5: "software s' = map (\<lambda>w. w\<lparr>sw_downloads := sw_downloads w +
                            line_quantity (sw_id w) ?lines\<rparr>) (software s)"
    using r(4) by (simp add: q)
  have 6: "cart_lines (cart_id c) s' = []" by (simp add: cart_lines_def r(5))
  have 7: "map cart_total_price (filter (\<lambda>c'. cart_id c' = cart_id c) (cart s'))
               = map (\<lambda>c'. 0) (filter (\<lambda>c'. cart_id c' = cart_id c) (cart s))"
  proof -
    have "map cart_total_price (filter (\<lambda>c'. cart_id c' = cart_id c)
            (map (\<lambda>c'. if cart_id c' = cart_id c
                         then c'\<lparr>cart_total_price := 0, cart_updated_at := now\<rparr>
                         else c') xs))
          = map (\<lambda>c'. 0) (filter (\<lambda>c'. cart_id c' = cart_id c) xs)" for xs
      by (induction xs) auto
    then show ?thesis unfolding r(6) .
  qed
  have fm: "find (\<lambda>c. cart_user_id c = user_id) (map (\<lambda>c'. if cart_id c' = cart_id c
                         then c'\<lparr>cart_total_price := 0, cart_updated_at := now\<rparr>
                         else c') xs) = Some (c\<lparr>cart_total_price := 0, cart_updated_at := now\<rparr>)"
    if "find (\<lambda>c. cart_user_id c = user_id) xs = Some c" for xs
    using that by (induction xs) (auto split: if_splits)
  have 8: "find (\<lambda>c. cart_user_id c = user_id) (cart s')
               = Some (c\<lparr>cart_total_price := 0, cart_updated_at := now\<rparr>)"
    unfolding r(6) by (rule fm[OF c])
  show ?thesis using 1 r(2) 3 4 5 6 7 8 by (simp add: run)
qed


lemma create_purchase_snapshot_demo:
  "find (\<lambda>c. cart_user_id c = 1) (cart demo_cart_db)
     = Some \<lparr>cart_id = 1, cart_user_id = 1, cart_total_price = 110, cart_created_at = 0,
             cart_updated_at = 2\<rparr> \<and>
   cart_check demo_cart_db \<and> cart_items_check demo_cart_db \<and>
   cart_items_unique demo_cart_db \<and> software_pk demo_cart_db \<and> cart_items_fk demo_cart_db \<and>
   create_purchase 1 (Some ''card'') 3 demo_cart_db = Inr (1, demo_bought_db) \<and>
   list_all2 (line_copied demo_cart_db 1) (cart_index_lines 1 demo_cart_db)
     (purchase_items demo_bought_db) \<and>
   map sw_downloads (software demo_bought_db) = [1, 2, 0] \<and>
   cart_lines 1 demo_bought_db = [] \<and>
   map cart_total_price (cart demo_bought_db) = [0, 0]"
proof -
  let ?c = "\<lparr>cart_id = 1, cart_user_id = 1, cart_total_price = 110, cart_created_at = 0,
             cart_updated_at = 2\<rparr>"
  have c: "find (\<lambda>c. cart_user_id c = 1) (cart demo_cart_db) = Some ?c"
    by (simp add: demo_defs)
  have nz: "cart_total_price ?c \<noteq> 0" by simp
  have h: "cart_check demo_cart_db" "cart_items_check demo_cart_db"
    "cart_items_unique demo_cart_db" "software_pk demo_cart_db"
    by (simp_all add: demo_defs cart_check_def cart_items_check_def cart_items_unique_def
        software_pk_def)
  have fk: "cart_items_fk demo_cart_db" by (simp add: demo_defs cart_items_fk_def)
  have run: "create_purchase 1 (Some ''card'') 3 demo_cart_db = Inr (1, demo_bought_db)"
    by (simp add: demo_defs checkout_defs)
  have n: "length (purchase_items demo_cart_db) = 0" by (simp add: demo_defs)
  have rest: "map sw_downloads (software demo_bought_db) = [1, 2, 0]"
    "cart_lines 1 demo_bought_db = []" "map cart_total_price (cart demo_bought_db) = [0, 0]"
    by (simp_all add: demo_defs cart_lines_def)
  from create_purchase_snapshot[OF c nz h fk, of "Some ''card''" 3]
  have "list_all2 (line_copied demo_cart_db 1) (cart_index_lines 1 demo_cart_db)
          (purchase_items demo_bought_db)"
    by (simp add: run n)
  with c h fk run rest show ?thesis by simp
qed

text \<open>
  C2 is not what the code does once an item of a cart has left the catalog, and
  \<^verbatim>\<open>delete_software\<close> lets it leave. User 1 puts one Photoshop and two Figma in
  the cart, Figma is deleted, and the user checks out: the cart had the total 110 and
  two lines, the purchase record carries 110, and the purchase has one line, the
  Photoshop; the Figma line of the cart is deleted with the rest, uncopied, and no
  download is counted for it.
\<close>

theorem create_purchase_drops_deleted_item:
  "map_option last (run_cart_ops [(1, AddToCart 1 1 1), (2, AddToCart 1 2 2)] demo_db)
     = Some demo_cart_db \<and>
   delete_software 2 demo_cart_db = Inr demo_dangling_db \<and>
   map cart_total_price (cart demo_dangling_db) = [110, 0] \<and>
   map ci_software_id (cart_lines 1 demo_dangling_db) = [1, 2] \<and>
   map_sum id fst (create_purchase 1 (Some ''card'') 3 demo_dangling_db) = Inr 1 \<and>
   map_sum id (map ph_total_price \<circ> purchase_history \<circ> snd)
     (create_purchase 1 (Some ''card'') 3 demo_dangling_db) = Inr [110] \<and>
   map_sum id (map pi_software_id \<circ> purchase_items \<circ> snd)
     (create_purchase 1 (Some ''card'') 3 demo_dangling_db) = Inr [1] \<and>
   map_sum id (cart_lines 1 \<circ> snd)
     (create_purchase 1 (Some ''card'') 3 demo_dangling_db) = Inr []"
  by (simp add: demo_defs cart_defs checkout_defs delete_software_def sql_delete_software_def
      get_db_connection_def)

lemma sum_rows_lines:
  "list_all2 (line_fetched s) ls rows \<Longrightarrow>
   sum_list (map (\<lambda>it. real_of_int (co_quantity it) * co_price_at_add it) rows) = sum_list (map line_price ls)"
  by (induction rule: list_all2_induct) (auto simp: line_fetched_def line_price_def)

lemma sum_new_rows:
  "list_all2 (row_copied pid) rows new \<Longrightarrow>
   sum_list (map (\<lambda>p. real_of_int (pi_quantity p) * pi_price_at_purchase p) new)
     = sum_list (map (\<lambda>it. real_of_int (co_quantity it) * co_price_at_add it) rows) \<and>
   filter (\<lambda>p. pi_purchase_id p = pid) new = new"
  by (induction rule: list_all2_induct) (auto simp: row_copied_def)


text \<open>
  The total of a purchase on a sound catalog. When \<^verbatim>\<open>create_purchase\<close> succeeds
  on a cart whose total was the sum of its lines, in a database where the catalog has
  one row per item id, every cart line's item is in the catalog and every purchase line
  belongs to a recorded purchase (the foreign keys of the schema), then the new purchase
  is the one row with its id and its \<^verbatim>\<open>total_price\<close> is the sum over its lines, as
  \<^verbatim>\<open>get_purchase_items\<close> reads them, of \<^verbatim>\<open>quantity * price_at_purchase\<close>.
\<close>

lemma purchase_total_is_sum_of_lines:
  assumes run: "create_purchase user_id payment_method now s = Inr (purchase_id, s')"
    and c: "find (\<lambda>c. cart_user_id c = user_id) (cart s) = Some c"
    and consistent: "cart_total_price c = cart_sum (cart_id c) s"
    and pk: "software_pk s" and fk: "cart_items_fk s" and pfk: "purchase_items_fk s"
  shows "map ph_total_price (filter (\<lambda>h. ph_id h = purchase_id) (purchase_history s'))
           = [purchase_sum purchase_id s']"
proof -
  note r = create_purchase_result[OF run c]
  have fresh: "purchase_id \<notin> ph_id ` set (purchase_history s)"
    using autoincrement_notin[of "seq_purchase_history s" "map ph_id (purchase_history s)"]
    by (simp add: r(1))
  then have "filter (\<lambda>h. ph_id h = purchase_id) (purchase_history s) = []"
    by (auto simp: filter_empty_conv)
  then have lhs: "map ph_total_price (filter (\<lambda>h. ph_id h = purchase_id) (purchase_history s'))
                   = [cart_total_price c]"
    by (simp add: r(2))
  from r(3) obtain new where new: "purchase_items s' = purchase_items s @ new"
    and copied: "list_all2 (row_copied purchase_id) (checkout_rows (cart_id c) s) new" by blast
  have old: "filter (\<lambda>p. pi_purchase_id p = purchase_id) (purchase_items s) = []"
    using pfk fresh
    by (force simp: purchase_items_fk_def list_all_iff list_ex_iff filter_empty_conv image_iff)
  have fetched: "list_all2 (line_fetched s) (cart_index_lines (cart_id c) s)
                   (checkout_rows (cart_id c) s)"
    by (rule checkout_rows_fetched[OF pk fk])
  have "sum_list (map line_price (cart_index_lines (cart_id c) s)) = cart_sum (cart_id c) s"
    by (simp add: cart_index_lines_def sum_list_map_sort_key cart_sum_def)
  then have "purchase_sum purchase_id s' = cart_sum (cart_id c) s"
    using sum_new_rows[OF copied] sum_rows_lines[OF fetched] old
    by (simp add: purchase_sum_def get_purchase_items_def new)
  then show ?thesis using lhs consistent by simp
qed

lemma purchase_total_is_sum_of_lines_demo:
  "create_purchase 1 (Some ''card'') 3 demo_cart_db = Inr (1, demo_bought_db) \<and>
   cart_sum 1 demo_cart_db = 110 \<and>
   software_pk demo_cart_db \<and> cart_items_fk demo_cart_db \<and> purchase_items_fk demo_cart_db \<and>
   map ph_total_price (filter (\<lambda>h. ph_id h = 1) (purchase_history demo_bought_db)) = [110] \<and>
   purchase_sum 1 demo_bought_db = 110"
proof -
  let ?c = "\<lparr>cart_id = 1, cart_user_id = 1, cart_total_price = 110, cart_created_at = 0,
             cart_updated_at = 2\<rparr>"
  have c: "find (\<lambda>c. cart_user_id c = 1) (cart demo_cart_db) = Some ?c"
    by (simp add: demo_defs)
  have sum: "cart_sum 1 demo_cart_db = 110"
    by (simp add: demo_defs cart_sum_def cart_lines_def line_price_def)
  then have consistent: "cart_total_price ?c = cart_sum (cart_id ?c) demo_cart_db" by simp
  have h: "software_pk demo_cart_db" "cart_items_fk demo_cart_db"
    "purchase_items_fk demo_cart_db"
    by (simp_all add: demo_defs software_pk_def cart_items_fk_def purchase_items_fk_def)
  have run: "create_purchase 1 (Some ''card'') 3 demo_cart_db = Inr (1, demo_bought_db)"
    by (simp add: demo_defs checkout_defs)
  have t: "map ph_total_price (filter (\<lambda>h. ph_id h = 1) (purchase_history demo_bought_db))
             = [110]"
    by (simp add: demo_defs)
  from purchase_total_is_sum_of_lines[OF run c consistent h] t
  have "purchase_sum 1 demo_bought_db = 110" by simp
  with run sum h t show ?thesis by simp
qed

text \<open>
  C9 is not what the code does once an item of the cart has left the catalog. The cart
  of user 1 has the total 110, which is the sum of its two lines; Figma has been
  deleted; \<^verbatim>\<open>create_purchase\<close> stores the total 110 in the purchase, and the sum
  over the lines of that purchase is 50.
\<close>

theorem purchase_total_exceeds_lines:
  "delete_software 2 demo_cart_db = Inr demo_dangling_db \<and>
   map cart_total_price (cart demo_dangling_db) = [110, 0] \<and>
   cart_sum 1 demo_dangling_db = 110 \<and>
   map_sum id fst (create_purchase 1 None 3 demo_dangling_db) = Inr 1 \<and>
   map_sum id (map ph_total_price \<circ> purchase_history \<circ> snd)
     (create_purchase 1 None 3 demo_dangling_db) = Inr [110] \<and>
   map_sum id (purchase_sum 1 \<circ> snd) (create_purchase 1 None 3 demo_dangling_db) = Inr 50"
  by (simp add: demo_defs checkout_defs cart_sum_def line_price_def purchase_sum_def
      get_purchase_items_def delete_software_def sql_delete_software_def
      get_db_connection_def)

lemma create_purchase_Inl_empty:
  assumes "find (\<lambda>c. cart_user_id c = user_id) (cart s) = Some c"
  shows "(create_purchase user_id payment_method now s = Inl (ValueError (Cart_is_empty user_id)))
          = (cart_total_price c = 0)"
  using assms copy_cart_items_Inl
  by (auto simp: create_purchase_def Let_def split: sum.splits prod.splits)

text \<open>
  C3, as amended. For a user with a cart, \<^verbatim>\<open>create_purchase\<close> raises the
  \<^verbatim>\<open>ValueError\<close> "Cart is empty" (and, raising, writes nothing) exactly when the
  cart's \<^verbatim>\<open>total_price\<close> is zero. In a database where the totals are the sums of the
  lines and the lines meet their \<^verbatim>\<open>CHECK\<close>s, the total is zero exactly when every
  line of the cart has \<^verbatim>\<open>price_at_add = 0\<close>: a cart without lines has the total zero,
  and so has a cart of free items.
\<close>

theorem create_purchase_empty_cart:
  assumes c: "find (\<lambda>c. cart_user_id c = user_id) (cart s) = Some c"
    and ok: "cart_total_ok s" and chk: "cart_items_check s"
  shows "((create_purchase user_id payment_method now s
            = Inl (ValueError (Cart_is_empty user_id))) = (cart_total_price c = 0)) \<and>
         ((cart_total_price c = 0)
            = list_all (\<lambda>i. ci_price_at_add i = 0) (cart_lines (cart_id c) s)) \<and>
         (cart_lines (cart_id c) s = [] \<longrightarrow> cart_total_price c = 0)"
proof -
  have "c \<in> set (cart s)" using c by (auto simp: find_Some_iff)
  then have t: "cart_total_price c = cart_sum (cart_id c) s"
    using ok by (simp add: cart_total_ok_def list_all_iff)
  have "list_all (\<lambda>i. 0 < ci_quantity i \<and> 0 \<le> ci_price_at_add i) (cart_lines (cart_id c) s)"
    using chk by (simp add: cart_items_check_def cart_lines_def list_all_iff)
  from sum_lines_zero[OF this] t
  have z: "(cart_total_price c = 0)
            = list_all (\<lambda>i. ci_price_at_add i = 0) (cart_lines (cart_id c) s)"
    by (simp add: cart_sum_def)
  show ?thesis using create_purchase_Inl_empty[OF c] z by simp
qed


theorem create_purchase_empty_cart_witness:
  "find (\<lambda>c. cart_user_id c = 1) (cart demo_free_db)
     = Some \<lparr>cart_id = 1, cart_user_id = 1, cart_total_price = 0, cart_created_at = 0,
             cart_updated_at = 1\<rparr> \<and>
   cart_total_ok demo_free_db \<and> cart_items_check demo_free_db \<and>
   create_purchase 1 (Some ''card'') 2 demo_free_db = Inl (ValueError (Cart_is_empty 1)) \<and>
   list_all (\<lambda>i. ci_price_at_add i = 0) (cart_lines 1 demo_free_db)"
proof -
  let ?c = "\<lparr>cart_id = 1, cart_user_id = 1, cart_total_price = 0, cart_created_at = 0,
             cart_updated_at = 1\<rparr>"
  have c: "find (\<lambda>c. cart_user_id c = 1) (cart demo_free_db) = Some ?c"
    by (simp add: demo_defs)
  have ok: "cart_total_ok demo_free_db"
    by (simp add: demo_defs cart_total_ok_def cart_sum_def cart_lines_def line_price_def)
  have chk: "cart_items_check demo_free_db" by (simp add: demo_defs cart_items_check_def)
  from create_purchase_empty_cart[OF c ok chk, of "Some ''card''" 2] c ok chk
  show ?thesis by simp
qed

text \<open>
  The equivalence of the claim fails on a cart of free items: user 1 adds the free
  Viewer; the cart has a line and the total 0, and checkout is refused as empty.
\<close>

theorem zero_priced_cart_counterexample:
  "add_to_cart 1 3 1 1 demo_db = Inr (1, demo_free_db) \<and>
   map cart_total_price (cart demo_free_db) = [0, 0] \<and>
   cart_sum 1 demo_free_db = 0 \<and>
   map ci_price_at_add (cart_lines 1 demo_free_db) = [0] \<and>
   create_purchase 1 (Some ''card'') 2 demo_free_db = Inl (ValueError (Cart_is_empty 1))"
  by (simp add: demo_defs cart_defs create_purchase_def)

section \<open>Properties of the catalog\<close>

text \<open>
  On a connection that enforces foreign keys the two deletions are refused; on the
  connection of \<^verbatim>\<open>get_db_connection\<close> they never are.
\<close>

lemma sql_delete_category_enforced:
  assumes "foreign_keys conn" "list_ex (\<lambda>c. cat_id c = category_id) (categories s)"
    and "list_ex (\<lambda>w. sw_category_id w = category_id) (software s)"
  shows "sql_delete_category conn category_id s = Inl IntegrityError"
  using assms by (simp add: sql_delete_category_def)

lemma sql_delete_software_enforced:
  assumes "foreign_keys conn" "list_ex (\<lambda>w. sw_id w = software_id) (software s)"
    and "list_ex (\<lambda>i. ci_software_id i = software_id) (cart_items s) \<or>
         list_ex (\<lambda>p. pi_software_id p = software_id) (purchase_items s)"
  shows "sql_delete_software conn software_id s = Inl IntegrityError"
  using assms by (auto simp: sql_delete_software_def)

lemma delete_category_unchecked:
  "delete_category category_id s
     = Inr (s\<lparr>categories := filter (\<lambda>c. cat_id c \<noteq> category_id) (categories s)\<rparr>)"
  by (simp add: delete_category_def sql_delete_category_def get_db_connection_def)

lemma delete_software_unchecked:
  "delete_software software_id s
     = Inr (s\<lparr>software := filter (\<lambda>w. sw_id w \<noteq> software_id) (software s),
              reviews := reviews s\<rparr>)"
  by (simp add: delete_software_def sql_delete_software_def get_db_connection_def)

text \<open>
  C7 is not what the code does. \<^verbatim>\<open>delete_category(1)\<close> succeeds and removes the
  category while all three items are in it; \<^verbatim>\<open>delete_software(1)\<close> succeeds after
  the checkout, while a purchase line references Photoshop, and
  \<^verbatim>\<open>delete_software(2)\<close> succeeds while a cart line references Figma. The referencing
  rows stay, pointing at nothing.
\<close>

theorem delete_referenced_rows_succeeds:
  "delete_category 1 demo_db = Inr (demo_db\<lparr>categories := []\<rparr>) \<and>
   map sw_category_id (software demo_db) = [1, 1, 1] \<and>
   map_sum id (map sw_id \<circ> software) (delete_software 1 demo_bought_db) = Inr [2, 3] \<and>
   map_sum id (map pi_software_id \<circ> purchase_items) (delete_software 1 demo_bought_db)
     = Inr [1, 2] \<and>
   map_sum id (map sw_id \<circ> software) (delete_software 2 demo_cart_db) = Inr [1, 3] \<and>
   map_sum id (map ci_software_id \<circ> cart_items) (delete_software 2 demo_cart_db)
     = Inr [1, 2]"
  by (simp add: demo_defs delete_category_def delete_software_def sql_delete_category_def
      sql_delete_software_def get_db_connection_def)

lemma row_get_append:
  "map_of r name \<noteq> None \<Longrightarrow> row_get (r @ extra) name = row_get r name"
  by (auto simp: row_get_def map_add_def split: option.splits)

lemma row_key_purchase_item_columns:
  "row_key (purchase_item_columns p @ extra) = row_key (purchase_item_columns p)"
proof -
  have "row_get (purchase_item_columns p @ extra) name = row_get (purchase_item_columns p) name"
    if "name \<in> {''id'', ''purchase_id'', ''software_id'', ''software_name'', ''quantity'',
                  ''price_at_purchase''}" for name
    using that by (intro row_get_append) (auto simp: purchase_item_columns_def)
  then have "row_get (purchase_item_columns p @ extra) ''id''
               = row_get (purchase_item_columns p) ''id''"
    "row_get (purchase_item_columns p @ extra) ''purchase_id''
               = row_get (purchase_item_columns p) ''purchase_id''"
    "row_get (purchase_item_columns p @ extra) ''software_id''
               = row_get (purchase_item_columns p) ''software_id''"
    "row_get (purchase_item_columns p @ extra) ''software_name''
               = row_get (purchase_item_columns p) ''software_name''"
    "row_get (purchase_item_columns p @ extra) ''quantity''
               = row_get (purchase_item_columns p) ''quantity''"
    "row_get (purchase_item_columns p @ extra) ''price_at_purchase''
               = row_get (purchase_item_columns p) ''price_at_purchase''"
    by simp_all
  then show ?thesis by (simp add: row_key_def item_dict_def cong: sum.case_cong)
qed

lemma group_items_row_key:
  "map row_key rs = map row_key rs' \<Longrightarrow> group_items rs m = group_items rs' m"
proof (induction rs arbitrary: rs' m)
  case Nil
  then show ?case by simp
next
  case (Cons r rs)
  then obtain r' rs'' where rs': "rs' = r' # rs''" and k: "row_key r = row_key r'"
    and rest: "map row_key rs = map row_key rs''" by auto
  from k have "row_get r ''purchase_id'' = row_get r' ''purchase_id''" "item_dict r = item_dict r'"
    by (simp_all add: row_key_def)
  then show ?case using Cons.IH[OF rest] by (simp add: rs' fun_upd_def split: sum.splits sqlval.splits)
qed

lemma update_software_Inr:
  assumes "update_software software_id name description price category_id developer image_url s = Inr s'"
  shows "purchase_items s' = purchase_items s" "purchase_history s' = purchase_history s"
    and "\<exists>f. software s' = map f (software s) \<and> (\<forall>w. sw_id (f w) = sw_id w)"
proof -
  let ?f = "\<lambda>w. if sw_id w = software_id
                              then w\<lparr>sw_name := set_column name (sw_name w),
                                     sw_description := set_nullable description (sw_description w),
                                     sw_price := set_column price (sw_price w),
                                     sw_category_id := set_column category_id (sw_category_id w),
                                     sw_developer := set_column developer (sw_developer w),
                                     sw_image_url := set_nullable image_url (sw_image_url w)\<rparr>
                              else w"
  from assms have s': "s' = s \<or> s' = s\<lparr>software := map ?f (software s)\<rparr>"
    by (auto simp: update_software_def split: if_splits)
  show "purchase_items s' = purchase_items s" "purchase_history s' = purchase_history s"
    using s' by auto
  from s' show "\<exists>f. software s' = map f (software s) \<and> (\<forall>w. sw_id (f w) = sw_id w)"
  proof
    assume "s' = s"
    then have "software s' = map id (software s) \<and> (\<forall>w. sw_id (id w) = sw_id w)" by simp
    then show ?thesis by blast
  next
    assume "s' = s\<lparr>software := map ?f (software s)\<rparr>"
    then have "software s' = map ?f (software s) \<and> (\<forall>w. sw_id (?f w) = sw_id w)" by simp
    then show ?thesis by blast
  qed
qed

lemma items_rows_row_key:
  assumes "purchase_items s' = purchase_items s"
    and "software s' = map f (software s)" and "\<And>w. sw_id (f w) = sw_id w"
  shows "map row_key (items_rows ids s') = map row_key (items_rows ids s)"
proof -
  have filt: "filter (\<lambda>w. sw_id w = k) (map f ws) = map f (filter (\<lambda>w. sw_id w = k) ws)" for k ws
    by (induction ws) (auto simp: assms(3))
  show ?thesis
    by (simp add: items_rows_def assms(1,2) map_concat filt o_def row_key_purchase_item_columns)
qed


text \<open>
  C8. A successful \<^verbatim>\<open>update_software\<close>, whatever it renames or reprices, leaves
  \<^verbatim>\<open>purchase_history\<close> and \<^verbatim>\<open>purchase_items\<close> as they were, and with them what
  the two readers of the history return: \<^verbatim>\<open>get_purchase_items\<close>, and
  \<^verbatim>\<open>get_purchases_with_items\<close>, whose \<^verbatim>\<open>name\<close> is the snapshot
  \<^verbatim>\<open>purchase_items.software_name\<close> (the first column of that name in the row), not
  the catalog's \<^verbatim>\<open>software.name\<close> it also selects.
\<close>

theorem update_software_keeps_snapshots:
  assumes "update_software software_id name description price category_id developer image_url s = Inr s'"
  shows "purchase_history s' = purchase_history s \<and> purchase_items s' = purchase_items s \<and>
         get_purchase_items purchase_id s' = get_purchase_items purchase_id s \<and>
         get_purchases_with_items user_id limit s' = get_purchases_with_items user_id limit s"
proof -
  note u = update_software_Inr[OF assms]
  from u(3) obtain f where f: "software s' = map f (software s)" "\<And>w. sw_id (f w) = sw_id w"
    by blast
  have "group_items (items_rows ids s') Map.empty = group_items (items_rows ids s) Map.empty" for ids
    by (rule group_items_row_key) (rule items_rows_row_key[OF u(1) f])
  then show ?thesis
    by (simp add: u(1,2) get_purchase_items_def get_purchases_with_items_def Let_def)
qed


theorem update_software_keeps_snapshots_witness:
  "map_sum id (map sw_name \<circ> software)
     (update_software 1 (Some ''Photoshop CC'') None (Some 99) None None None demo_bought_db)
     = Inr [''Photoshop CC'', ''Figma'', ''Viewer''] \<and>
   map_sum id (map sw_price \<circ> software)
     (update_software 1 (Some ''Photoshop CC'') None (Some 99) None None None demo_bought_db)
     = Inr [99, 30, 0] \<and>
   (\<exists>s'. update_software 1 (Some ''Photoshop CC'') None (Some 99) None None None demo_bought_db
            = Inr s' \<and>
          purchase_items s' = purchase_items demo_bought_db \<and>
          get_purchases_with_items 1 None s' =
            Inr [\<lparr>pw_purchase =
                    \<lparr>ph_id = 1, ph_user_id = 1, ph_total_price = 110,
                      ph_payment_method = Some ''card'', ph_status = ''completed'',
                      ph_purchased_at = 3\<rparr>,
                   pw_items =
                    [[(''id'', Integer 1), (''software_id'', Integer 1),
                      (''name'', Text ''Photoshop''), (''quantity'', Integer 1),
                      (''price'', Real 50)],
                     [(''id'', Integer 2), (''software_id'', Integer 2),
                      (''name'', Text ''Figma''), (''quantity'', Integer 2),
                      (''price'', Real 30)]]\<rparr>])"
proof -
  obtain s' where
    run: "update_software 1 (Some ''Photoshop CC'') None (Some 99) None None None demo_bought_db
            = Inr s'"
    by (simp add: update_software_def demo_defs)
  have before: "get_purchases_with_items 1 None demo_bought_db =
            Inr [\<lparr>pw_purchase =
                    \<lparr>ph_id = 1, ph_user_id = 1, ph_total_price = 110,
                      ph_payment_method = Some ''card'', ph_status = ''completed'',
                      ph_purchased_at = 3\<rparr>,
                   pw_items =
                    [[(''id'', Integer 1), (''software_id'', Integer 1),
                      (''name'', Text ''Photoshop''), (''quantity'', Integer 1),
                      (''price'', Real 50)],
                     [(''id'', Integer 2), (''software_id'', Integer 2),
                      (''name'', Text ''Figma''), (''quantity'', Integer 2),
                      (''price'', Real 30)]]\<rparr>]"
    by (simp add: get_purchases_with_items_def demo_defs sql_limit_def order_by_desc_def
        items_rows_def purchase_item_columns_def item_dict_def row_get_def)
  have names: "map_sum id (map sw_name \<circ> software)
     (update_software 1 (Some ''Photoshop CC'') None (Some 99) None None None demo_bought_db)
     = Inr [''Photoshop CC'', ''Figma'', ''Viewer'']"
    "map_sum id (map sw_price \<circ> software)
     (update_software 1 (Some ''Photoshop CC'') None (Some 99) None None None demo_bought_db)
     = Inr [99, 30, 0]"
    by (simp_all add: update_software_def demo_defs set_column_def set_nullable_def)
  from update_software_keeps_snapshots[OF run, of 1 1 None] before run names
  show ?thesis by simp
qed

section \<open>Properties of the reviews\<close>

lemma set_rating_avg_reviews:
  "set_rating_avg a w s1 = Inr s' \<Longrightarrow> reviews s' = reviews s1"
  by (auto simp: set_rating_avg_def split: if_splits)

lemma find_filter_Nil: "(find P xs = None) = (filter P xs = [])"
  by (induction xs) auto











lemma mean_rating_no_reviews: "software_reviews w s = [] \<Longrightarrow> mean_rating w s = 0"
  by (simp add: mean_rating_def)

lemma demo_rated_db_means:
  "mean_rating 1 demo_rated_db = 4"
  "map_sum id (map sw_rating_avg \<circ> software)
     (delete_review 1 (demo_rated_db\<lparr>reviews := take 1 (reviews demo_rated_db)\<rparr>))
     = Inr [Some 0, Some 0, Some 0]"
  by (simp_all add: demo_defs review_defs mean_rating_def)

text \<open>
  \<^verbatim>\<open>add_review\<close>, the plain insert, keeps the table's two keys as well: it raises
  when the user has a review of the item.
\<close>

lemma add_review_keeps_keys:
  assumes pk: "reviews_pk s" and uq: "reviews_unique s"
    and run: "add_review user_id software_id rating comment now s = Inr (review_id, s')"
  shows "reviews_pk s' \<and> reviews_unique s' \<and> reviews_of user_id software_id s = [] \<and>
         length (reviews_of user_id software_id s') = 1"
proof -
  let ?id = "autoincrement (seq_reviews s) (map rv_id (reviews s))"
  let ?new = "\<lparr>rv_id = ?id, rv_user_id = user_id, rv_software_id = software_id,
               rv_rating = rating, rv_comment = comment, rv_created_at = now\<rparr>"
  from run have none: "\<not> list_ex (\<lambda>r. rv_user_id r = user_id \<and> rv_software_id r = software_id)
                            (reviews s)"
    by (auto simp: add_review_def split: if_splits)
  from run obtain a where "set_rating_avg a software_id
        (s\<lparr>reviews := reviews s @ [?new], seq_reviews := ?id\<rparr>) = Inr s'"
    by (auto simp: add_review_def Let_def split: if_splits sum.splits)
  from set_rating_avg_reviews[OF this] have r: "reviews s' = reviews s @ [?new]" by simp
  have e: "reviews_of user_id software_id s = []"
    using none by (auto simp: reviews_of_def filter_empty_conv list_ex_iff)
  have fresh: "?id \<notin> rv_id ` set (reviews s)"
    using autoincrement_notin[of "seq_reviews s" "map rv_id (reviews s)"] by simp
  have nopair: "(user_id, software_id) \<notin> (\<lambda>r. (rv_user_id r, rv_software_id r)) ` set (reviews s)"
    using e by (auto simp: reviews_of_def filter_empty_conv)
  have "reviews_pk s'" using pk fresh by (simp add: reviews_pk_def r)
  moreover have "reviews_unique s'" using uq nopair by (simp add: reviews_unique_def r)
  moreover have "length (reviews_of user_id software_id s') = 1"
    using e by (simp add: reviews_of_def r)
  ultimately show ?thesis using e by simp
qed

text \<open>
  C5, as amended. In a table that meets its primary key and its
  \<^verbatim>\<open>UNIQUE(user_id, software_id)\<close>, a successful \<^verbatim>\<open>add_or_update_review\<close> keeps
  both and leaves exactly one review of the user for the item. When there was one, the
  table is the old one with the rating and the text of that row replaced, in place: the
  row keeps its id and its \<^verbatim>\<open>created_at\<close>, and no row is added. When there was none,
  one row is appended, with the time of the call.
\<close>

theorem add_or_update_review_upsert:
  assumes pk: "reviews_pk s" and uq: "reviews_unique s"
    and run: "add_or_update_review user_id software_id rating body now s = Inr s'"
  shows "reviews_pk s' \<and> reviews_unique s' \<and>
         length (reviews_of user_id software_id s') = 1 \<and>
         (if reviews_of user_id software_id s = []
          then reviews s' = reviews s @
                 [\<lparr>rv_id = autoincrement (seq_reviews s) (map rv_id (reviews s)),
                   rv_user_id = user_id, rv_software_id = software_id, rv_rating = rating,
                   rv_comment = Some body, rv_created_at = now\<rparr>]
          else reviews s' =
                 map (\<lambda>r. if rv_user_id r = user_id \<and> rv_software_id r = software_id
                           then r\<lparr>rv_rating := rating, rv_comment := Some body\<rparr> else r)
                     (reviews s))"
proof (cases "find (\<lambda>r. rv_user_id r = user_id \<and> rv_software_id r = software_id) (reviews s)")
  case None
  let ?id = "autoincrement (seq_reviews s) (map rv_id (reviews s))"
  let ?new = "\<lparr>rv_id = ?id, rv_user_id = user_id, rv_software_id = software_id,
               rv_rating = rating, rv_comment = Some body, rv_created_at = now\<rparr>"
  from run None obtain a where "set_rating_avg a software_id
        (s\<lparr>reviews := reviews s @ [?new], seq_reviews := ?id\<rparr>) = Inr s'"
    by (auto simp: add_or_update_review_def Let_def split: if_splits)
  from set_rating_avg_reviews[OF this] have r: "reviews s' = reviews s @ [?new]" by simp
  have e: "reviews_of user_id software_id s = []"
    using None by (simp add: find_filter_Nil reviews_of_def)
  have fresh: "?id \<notin> rv_id ` set (reviews s)"
    using autoincrement_notin[of "seq_reviews s" "map rv_id (reviews s)"] by simp
  have nopair: "(user_id, software_id) \<notin> (\<lambda>r. (rv_user_id r, rv_software_id r)) ` set (reviews s)"
    using e by (auto simp: reviews_of_def filter_empty_conv)
  have "reviews_pk s'" using pk fresh by (simp add: reviews_pk_def r)
  moreover have "reviews_unique s'" using uq nopair by (simp add: reviews_unique_def r)
  moreover have "length (reviews_of user_id software_id s') = 1"
    using e by (simp add: reviews_of_def r)
  ultimately show ?thesis using e r by simp
next
  case (Some x)
  let ?P = "\<lambda>r. rv_user_id r = user_id \<and> rv_software_id r = software_id"
  let ?u = "\<lambda>r. r\<lparr>rv_rating := rating, rv_comment := Some body\<rparr>"
  from run Some obtain a where "set_rating_avg a software_id
        (s\<lparr>reviews := map (\<lambda>r. if rv_id r = rv_id x then ?u r else r) (reviews s)\<rparr>) = Inr s'"
    by (auto simp: add_or_update_review_def Let_def split: if_splits)
  from set_rating_avg_reviews[OF this]
  have r0: "reviews s' = map (\<lambda>r. if rv_id r = rv_id x then ?u r else r) (reviews s)" by simp
  have x: "x \<in> set (reviews s)" "?P x" using Some by (auto simp: find_Some_iff)
  have same: "(rv_id r = rv_id x) = ?P r" if "r \<in> set (reviews s)" for r
  proof
    assume "rv_id r = rv_id x"
    then have "r = x" using distinct_map_eq[OF pk[unfolded reviews_pk_def] that x(1)] by simp
    then show "?P r" using x(2) by simp
  next
    assume "?P r"
    then have "(rv_user_id r, rv_software_id r) = (rv_user_id x, rv_software_id x)"
      using x(2) by simp
    then have "r = x" using distinct_map_eq[OF uq[unfolded reviews_unique_def] that x(1)] by simp
    then show "rv_id r = rv_id x" by simp
  qed
  have r: "reviews s' = map (\<lambda>r. if ?P r then ?u r else r) (reviews s)"
    unfolding r0 using same by (intro map_cong) auto
  have ne: "reviews_of user_id software_id s \<noteq> []"
    using x by (auto simp: reviews_of_def filter_empty_conv)
  have ids: "map rv_id (reviews s') = map rv_id (reviews s)" by (auto simp: r)
  have pairs: "map (\<lambda>r. (rv_user_id r, rv_software_id r)) (reviews s')
               = map (\<lambda>r. (rv_user_id r, rv_software_id r)) (reviews s)" by (auto simp: r)
  have "reviews_pk s'" using pk by (simp only: reviews_pk_def ids)
  moreover have uq': "reviews_unique s'" using uq by (simp only: reviews_unique_def pairs)
  moreover have "length (reviews_of user_id software_id s') = 1"
  proof -
    have "?u x \<in> set (reviews s')" using x by (force simp: r)
    from distinct_filter_le1[OF uq'[unfolded reviews_unique_def] this]
    show ?thesis using x(2) by (simp add: reviews_of_def split_def)
  qed
  ultimately show ?thesis using ne r by simp
qed

theorem add_or_update_review_upsert_witness:
  "reviews_pk demo_review_db \<and> reviews_unique demo_review_db \<and>
   map rv_rating (reviews demo_review_db) = [3] \<and>
   (\<exists>s'. add_or_update_review 1 1 5 ''better'' 9 demo_review_db = Inr s' \<and>
          reviews_pk s' \<and> reviews_unique s' \<and>
          reviews s' = [\<lparr>rv_id = 1, rv_user_id = 1, rv_software_id = 1, rv_rating = 5,
                          rv_comment = Some ''better'', rv_created_at = 5\<rparr>])"
proof -
  have pk: "reviews_pk demo_review_db" and uq: "reviews_unique demo_review_db"
    and r: "map rv_rating (reviews demo_review_db) = [3]"
    by (simp_all add: demo_defs reviews_pk_def reviews_unique_def)
  obtain s' where run: "add_or_update_review 1 1 5 ''better'' 9 demo_review_db = Inr s'"
    by (simp add: demo_defs review_defs)
  have ne: "reviews_of 1 1 demo_review_db \<noteq> []" by (simp add: demo_defs reviews_of_def)
  from add_or_update_review_upsert[OF pk uq run] ne
  have "reviews_pk s' \<and> reviews_unique s' \<and>
        reviews s' = [\<lparr>rv_id = 1, rv_user_id = 1, rv_software_id = 1, rv_rating = 5,
                        rv_comment = Some ''better'', rv_created_at = 5\<rparr>]"
    by (simp add: demo_defs)
  with pk uq r run show ?thesis by blast
qed

text \<open>
  The timestamp is not overwritten: the review written at time 5 is resubmitted at time
  9; rating and text change, \<^verbatim>\<open>created_at\<close> stays 5.
\<close>

theorem add_or_update_review_timestamp_counterexample:
  "map rv_created_at (reviews demo_review_db) = [5] \<and>
   map rv_rating (reviews demo_review_db) = [3] \<and>
   map_sum id (map rv_rating \<circ> reviews)
     (add_or_update_review 1 1 5 ''better'' 9 demo_review_db) = Inr [5] \<and>
   map_sum id (map rv_comment \<circ> reviews)
     (add_or_update_review 1 1 5 ''better'' 9 demo_review_db) = Inr [Some ''better''] \<and>
   map_sum id (map rv_created_at \<circ> reviews)
     (add_or_update_review 1 1 5 ''better'' 9 demo_review_db) = Inr [5]"
  by (simp add: demo_defs review_defs)

section \<open>Properties of the review routes\<close>

text \<open>
  The handler \<^verbatim>\<open>add_software_review\<close> writes a review only for a user who has a
  completed purchase with the item.
\<close>

lemma add_software_review_gated:
  assumes "add_software_review user_id software_id rating_raw comment now s = Inr (fl, s')"
    and "\<not> user_has_purchased_software user_id software_id s"
  shows "fl = Only_buyers_may_review \<and> s' = s"
  using assms by (simp add: add_software_review_def)

lemma add_software_review_saved:
  assumes "add_software_review user_id software_id rating_raw comment now s
             = Inr (Review_saved, s')"
  shows "user_has_purchased_software user_id software_id s"
  using assms by (auto simp: add_software_review_def Let_def split: if_splits sum.splits)

text \<open>
  C4 is not what the code does. The handler \<^verbatim>\<open>add_review_route\<close>
  (\<^verbatim>\<open>POST /add_review/<software_id>\<close>) never asks
  \<^verbatim>\<open>user_has_purchased_software\<close>: user 1 has bought nothing, posts five stars for
  Photoshop and is thanked, and the review is in the table. The same submission through
  \<^verbatim>\<open>add_software_review\<close> is turned away.
\<close>

theorem add_review_route_ungated:
  "\<not> user_has_purchased_software 1 1 demo_db \<and>
   fst (add_review_route 1 1 (Some 5) ''great'' 7 demo_db) = Thanks_for_review \<and>
   reviews (snd (add_review_route 1 1 (Some 5) ''great'' 7 demo_db))
     = [\<lparr>rv_id = 1, rv_user_id = 1, rv_software_id = 1, rv_rating = 5,
         rv_comment = Some ''great'', rv_created_at = 7\<rparr>] \<and>
   add_software_review 1 1 (Some 5) ''great'' 7 demo_db = Inr (Only_buyers_may_review, demo_db)"
  by (simp add: add_review_route_def add_software_review_def user_has_purchased_software_def
      review_defs demo_defs)

end
